theory Spec2Isabelle
  imports Main "HOL-Library.Word" "HOL-Library.Sublist"
begin

section \<open>The \<open>describe cluster\<close> command of rosa (cmd/describe/cluster/cmd.go)\<close>

text \<open>
  A shallow embedding of \<^verbatim>\<open>cmd/describe/cluster/cmd.go\<close>: the link resolver, the
  Multi-AZ resolver, the node count aggregator, the scheduled-upgrade summary, the
  limited-support section, the structured output and the control flow of \<^verbatim>\<open>run\<close>.

  Conventions of the embedding.
  \<^item> Go's \<^verbatim>\<open>int\<close> is a 64-bit two's-complement integer on every platform rosa is
    released for; it is the type \<open>64 word\<close>. \<open>+\<close> wraps around, as Go's \<^verbatim>\<open>+=\<close>
    does, and \<open>sint\<close> reads the signed value that \<^verbatim>\<open>%d\<close> prints.
  \<^item> Go's \<^verbatim>\<open>string\<close> is a byte string: \<open>string\<close>. A Go \<^verbatim>\<open>error\<close> is the text of
    its message.
  \<^item> The types of the OCM SDK (\<^verbatim>\<open>cmv1\<close>) are records of the getters that the code
    calls. The getters of the SDK are nil-safe: called on \<^verbatim>\<open>nil\<close>, or on an object
    where the field is not set, they return the zero value of the field. A sub-object
    that the code never compares with \<^verbatim>\<open>nil\<close> is therefore a plain record (a
    missing one is the record of zero values); a pointer that the code compares with
    \<^verbatim>\<open>nil\<close> is an \<open>option\<close>, \<open>None\<close> being \<^verbatim>\<open>nil\<close>.
  \<^item> \<^verbatim>\<open>fmt.Sprintf\<close> is string concatenation, with \<open>fmt_d\<close> for \<^verbatim>\<open>%d\<close> and
    \<open>fmt_t\<close> for \<^verbatim>\<open>%t\<close>; \<open>[CHR 0x27]\<close> is a single quote.
  \<^item> What \<^verbatim>\<open>run\<close> obtains from other packages (the OCM client, the output
    package, the ARN parser, constants of \<^verbatim>\<open>pkg/ocm\<close> and \<^verbatim>\<open>pkg/properties\<close>) is
    a parameter: a field of the record \<open>env\<close>.
\<close>

subsection \<open>Go integers and \<^verbatim>\<open>fmt\<close> verbs\<close>

type_synonym go_int = "64 word"

type_synonym error = string

definition digit_char :: "nat \<Rightarrow> char" where
  "digit_char d = ''0123456789'' ! d"

fun decimal :: "nat \<Rightarrow> string" where
  "decimal n =
     (if n < 10 then [digit_char n] else decimal (n div 10) @ [digit_char (n mod 10)])"

declare decimal.simps [simp del]

definition fmt_int :: "int \<Rightarrow> string" where
  "fmt_int i = (if i < 0 then CHR ''-'' # decimal (nat (- i)) else decimal (nat i))"

text \<open>\<^verbatim>\<open>%d\<close> of a Go \<^verbatim>\<open>int\<close>: the signed value in decimal.\<close>

definition fmt_d :: "go_int \<Rightarrow> string" where
  "fmt_d w = fmt_int (sint w)"

text \<open>\<^verbatim>\<open>%t\<close> of a Go \<^verbatim>\<open>bool\<close>.\<close>

definition fmt_t :: "bool \<Rightarrow> string" where
  "fmt_t b = (if b then ''true'' else ''false'')"

subsection \<open>\<^verbatim>\<open>time.Time\<close> and the two layouts the code formats with\<close>

text \<open>
  A \<^verbatim>\<open>time.Time\<close> is represented by what \<^verbatim>\<open>Format\<close> reads of it: the civil date
  and clock in the time's own location, and the text that the layout element
  \<^verbatim>\<open>MST\<close> prints for its zone. The zero \<^verbatim>\<open>time.Time{}\<close> is January 1 of year 1,
  00:00:00 UTC.
\<close>

datatype month =
  January | February | March | April | May | June
  | July | August | September | October | November | December

record time =
  Time_Year :: int
  Time_Month :: month
  Time_Day :: nat
  Time_Hour :: nat
  Time_Minute :: nat
  Time_Second :: nat
  Time_Zone :: string

definition zeroTime :: time where
  "zeroTime =
     \<lparr>Time_Year = 1, Time_Month = January, Time_Day = 1, Time_Hour = 0, Time_Minute = 0,
      Time_Second = 0, Time_Zone = ''UTC''\<rparr>"

fun month_number :: "month \<Rightarrow> nat" where
  "month_number January = 1"
| "month_number February = 2"
| "month_number March = 3"
| "month_number April = 4"
| "month_number May = 5"
| "month_number June = 6"
| "month_number July = 7"
| "month_number August = 8"
| "month_number September = 9"
| "month_number October = 10"
| "month_number November = 11"
| "month_number December = 12"

fun month_abbrev :: "month \<Rightarrow> string" where
  "month_abbrev January = ''Jan''"
| "month_abbrev February = ''Feb''"
| "month_abbrev March = ''Mar''"
| "month_abbrev April = ''Apr''"
| "month_abbrev May = ''May''"
| "month_abbrev June = ''Jun''"
| "month_abbrev July = ''Jul''"
| "month_abbrev August = ''Aug''"
| "month_abbrev September = ''Sep''"
| "month_abbrev October = ''Oct''"
| "month_abbrev November = ''Nov''"
| "month_abbrev December = ''Dec''"

text \<open>
  \<^verbatim>\<open>appendInt\<close> of package \<^verbatim>\<open>time\<close>: the decimal digits, padded with zeros on the
  left to a width, after the sign.
\<close>

definition zero_pad :: "nat \<Rightarrow> nat \<Rightarrow> string" where
  "zero_pad width n = replicate (width - length (decimal n)) CHR ''0'' @ decimal n"

definition appendInt :: "int \<Rightarrow> nat \<Rightarrow> string" where
  "appendInt x width =
     (if x < 0 then CHR ''-'' # zero_pad width (nat (- x)) else zero_pad width (nat x))"

text \<open>The layout element \<^verbatim>\<open>_2\<close>: the day, padded with a space to two characters.\<close>

definition space_pad2 :: "nat \<Rightarrow> string" where
  "space_pad2 n = (if n < 10 then CHR '' '' # decimal n else decimal n)"

text \<open>\<^verbatim>\<open>t.Format("2006-01-02 15:04 MST")\<close>\<close>

definition Format_upgrade :: "time \<Rightarrow> string" where
  "Format_upgrade t =
     appendInt (Time_Year t) 4 @ ''-'' @ zero_pad 2 (month_number (Time_Month t)) @ ''-'' @
     zero_pad 2 (Time_Day t) @ '' '' @ zero_pad 2 (Time_Hour t) @ '':'' @
     zero_pad 2 (Time_Minute t) @ '' '' @ Time_Zone t"

text \<open>\<^verbatim>\<open>t.Format("Jan _2 2006 15:04:05 MST")\<close>\<close>

definition Format_created :: "time \<Rightarrow> string" where
  "Format_created t =
     month_abbrev (Time_Month t) @ '' '' @ space_pad2 (Time_Day t) @ '' '' @
     appendInt (Time_Year t) 4 @ '' '' @ zero_pad 2 (Time_Hour t) @ '':'' @
     zero_pad 2 (Time_Minute t) @ '':'' @ zero_pad 2 (Time_Second t) @ '' '' @ Time_Zone t"

subsection \<open>The descriptors of the OCM SDK\<close>

text \<open>
  \<^verbatim>\<open>cmv1.NodePool\<close> (hosted) and \<^verbatim>\<open>cmv1.MachinePool\<close> (classic). A field is named
  by its type and its getter. An element of a pool list is a pointer in Go; a \<^verbatim>\<open>nil\<close>
  element answers every getter with the zero value, as the record with no
  autoscaling, no status, zero replicas and an empty zone does.
\<close>

record nodePoolAutoscaling =
  NodePoolAutoscaling_MinReplica :: go_int
  NodePoolAutoscaling_MaxReplica :: go_int

record nodePoolStatus =
  NodePoolStatus_CurrentReplicas :: go_int

record nodePool =
  NodePool_AvailabilityZone :: string
  NodePool_Autoscaling :: "nodePoolAutoscaling option"
  NodePool_Replicas :: go_int
  NodePool_Status :: "nodePoolStatus option"

record machinePoolAutoscaling =
  MachinePoolAutoscaling_MinReplicas :: go_int
  MachinePoolAutoscaling_MaxReplicas :: go_int

record machinePool =
  MachinePool_Autoscaling :: "machinePoolAutoscaling option"
  MachinePool_Replicas :: go_int

text \<open>
  Upgrade policies and their states. The fields in lower case are the fields of the
  objects; the getters, called on pointers that may be \<^verbatim>\<open>nil\<close>, are the functions
  in upper case. A next-run time that is not set is \<open>None\<close>, and \<^verbatim>\<open>NextRun()\<close>
  answers the zero time then; a version or a state value that is not set is the
  empty string.
\<close>

record upgradePolicy =
  upgradePolicy_version :: string
  upgradePolicy_nextRun :: "time option"

definition UpgradePolicy_Version :: "upgradePolicy option \<Rightarrow> string" where
  "UpgradePolicy_Version p = (case p of None \<Rightarrow> '''' | Some x \<Rightarrow> upgradePolicy_version x)"

definition UpgradePolicy_NextRun :: "upgradePolicy option \<Rightarrow> time" where
  "UpgradePolicy_NextRun p =
     (case p of
        None \<Rightarrow> zeroTime
      | Some x \<Rightarrow> (case upgradePolicy_nextRun x of None \<Rightarrow> zeroTime | Some t \<Rightarrow> t))"

record upgradePolicyState =
  upgradePolicyState_value :: string

definition UpgradePolicyState_Value :: "upgradePolicyState option \<Rightarrow> string" where
  "UpgradePolicyState_Value s = (case s of None \<Rightarrow> '''' | Some x \<Rightarrow> upgradePolicyState_value x)"

record controlPlaneUpgradePolicyState =
  controlPlaneUpgradePolicyState_value :: string

definition ControlPlaneUpgradePolicyState_Value ::
  "controlPlaneUpgradePolicyState option \<Rightarrow> string" where
  "ControlPlaneUpgradePolicyState_Value s =
     (case s of None \<Rightarrow> '''' | Some x \<Rightarrow> controlPlaneUpgradePolicyState_value x)"

record controlPlaneUpgradePolicy =
  controlPlaneUpgradePolicy_state :: "controlPlaneUpgradePolicyState option"
  controlPlaneUpgradePolicy_version :: string
  controlPlaneUpgradePolicy_nextRun :: "time option"

definition ControlPlaneUpgradePolicy_State ::
  "controlPlaneUpgradePolicy option \<Rightarrow> controlPlaneUpgradePolicyState option" where
  "ControlPlaneUpgradePolicy_State p =
     (case p of None \<Rightarrow> None | Some x \<Rightarrow> controlPlaneUpgradePolicy_state x)"

definition ControlPlaneUpgradePolicy_Version :: "controlPlaneUpgradePolicy option \<Rightarrow> string" where
  "ControlPlaneUpgradePolicy_Version p =
     (case p of None \<Rightarrow> '''' | Some x \<Rightarrow> controlPlaneUpgradePolicy_version x)"

definition ControlPlaneUpgradePolicy_NextRun :: "controlPlaneUpgradePolicy option \<Rightarrow> time" where
  "ControlPlaneUpgradePolicy_NextRun p =
     (case p of
        None \<Rightarrow> zeroTime
      | Some x \<Rightarrow>
          (case controlPlaneUpgradePolicy_nextRun x of None \<Rightarrow> zeroTime | Some t \<Rightarrow> t))"

record limitedSupportReason =
  LimitedSupportReason_Summary :: string
  LimitedSupportReason_Details :: string

text \<open>\<^verbatim>\<open>cmv1.Cluster\<close> and its sub-objects.\<close>

record hypershift =
  Hypershift_Enabled :: bool

record clusterNodes =
  ClusterNodes_Master :: go_int
  ClusterNodes_Infra :: go_int
  ClusterNodes_Compute :: go_int
  ClusterNodes_AutoscaleCompute :: "machinePoolAutoscaling option"

record version =
  Version_ChannelGroup :: string

record dns =
  DNS_BaseDomain :: string

text \<open>
  \<^verbatim>\<open>cluster.Status()\<close> is compared with \<^verbatim>\<open>nil\<close> at line 148 and read without a
  test elsewhere: an option, with nil-safe getters.
\<close>

record clusterStatus =
  clusterStatus_dnsReady :: bool
  clusterStatus_provisionErrorMessage :: string
  clusterStatus_provisionErrorCode :: string
  clusterStatus_description :: string
  clusterStatus_state :: string

definition ClusterStatus_DNSReady :: "clusterStatus option \<Rightarrow> bool" where
  "ClusterStatus_DNSReady s = (case s of None \<Rightarrow> False | Some x \<Rightarrow> clusterStatus_dnsReady x)"

definition ClusterStatus_ProvisionErrorMessage :: "clusterStatus option \<Rightarrow> string" where
  "ClusterStatus_ProvisionErrorMessage s =
     (case s of None \<Rightarrow> '''' | Some x \<Rightarrow> clusterStatus_provisionErrorMessage x)"

definition ClusterStatus_ProvisionErrorCode :: "clusterStatus option \<Rightarrow> string" where
  "ClusterStatus_ProvisionErrorCode s =
     (case s of None \<Rightarrow> '''' | Some x \<Rightarrow> clusterStatus_provisionErrorCode x)"

definition ClusterStatus_Description :: "clusterStatus option \<Rightarrow> string" where
  "ClusterStatus_Description s =
     (case s of None \<Rightarrow> '''' | Some x \<Rightarrow> clusterStatus_description x)"

definition ClusterStatus_State :: "clusterStatus option \<Rightarrow> string" where
  "ClusterStatus_State s = (case s of None \<Rightarrow> '''' | Some x \<Rightarrow> clusterStatus_state x)"

record clusterAPI =
  ClusterAPI_Listening :: string
  ClusterAPI_URL :: string

record clusterConsole =
  ClusterConsole_URL :: string

record cloudRegion =
  CloudRegion_ID :: string

record network =
  Network_Type :: string
  Network_ServiceCIDR :: string
  Network_MachineCIDR :: string
  Network_PodCIDR :: string
  Network_HostPrefix :: go_int

record proxy =
  Proxy_HTTPProxy :: string
  Proxy_HTTPSProxy :: string
  Proxy_NoProxy :: string

record instanceIAMRoles =
  InstanceIAMRoles_MasterRoleARN :: string
  InstanceIAMRoles_WorkerRoleARN :: string

record operatorIAMRole =
  OperatorIAMRole_RoleARN :: string

record oidcConfig =
  OidcConfig_Managed :: bool

record sts =
  STS_RoleARN :: string
  STS_ExternalID :: string
  STS_SupportRoleARN :: string
  STS_InstanceIAMRoles :: instanceIAMRoles
  STS_OperatorIAMRoles :: "operatorIAMRole list"
  STS_ManagedPolicies :: bool
  STS_OidcConfig :: "oidcConfig option"
  STS_OIDCEndpointURL :: string

record aws =
  AWS_STS :: sts
  AWS_BillingAccountID :: string

record subscription =
  Subscription_ID :: string

record cluster =
  Cluster_Name :: string
  Cluster_ID :: string
  Cluster_ExternalID :: string
  Cluster_Hypershift :: hypershift
  Cluster_OpenshiftVersion :: string
  Cluster_Version :: version
  Cluster_DNS :: dns
  Cluster_Status :: "clusterStatus option"
  Cluster_State :: string
  Cluster_Properties :: "string \<rightharpoonup> string"
  Cluster_API :: clusterAPI
  Cluster_Console :: clusterConsole
  Cluster_Region :: cloudRegion
  Cluster_MultiAZ :: bool
  Cluster_NodePools :: "nodePool list option"
  Cluster_Nodes :: clusterNodes
  Cluster_Network :: network
  Cluster_InfraID :: string
  Cluster_Proxy :: "proxy option"
  Cluster_AdditionalTrustBundle :: string
  Cluster_AWS :: aws
  Cluster_CreationTimestamp :: time
  Cluster_DisableUserWorkloadMonitoring :: bool
  Cluster_FIPS :: bool
  Cluster_Subscription :: subscription

text \<open>Constants of the SDK: values of \<^verbatim>\<open>cmv1.ClusterState\<close> and \<^verbatim>\<open>cmv1.ListeningMethod\<close>.\<close>

definition ClusterStateWaiting :: string where
  "ClusterStateWaiting = ''waiting''"

definition ClusterStatePending :: string where
  "ClusterStatePending = ''pending''"

definition ClusterStateInstalling :: string where
  "ClusterStateInstalling = ''installing''"

definition ClusterStateError :: string where
  "ClusterStateError = ''error''"

definition ListeningMethodInternal :: string where
  "ListeningMethodInternal = ''internal''"

text \<open>A Go map read at a key it does not hold answers the zero value.\<close>

definition map_index :: "(string \<rightharpoonup> string) \<Rightarrow> string \<Rightarrow> string" where
  "map_index m k = (case m k of None \<Rightarrow> '''' | Some v \<Rightarrow> v)"

subsection \<open>Constants (lines 36 to 41)\<close>

definition StageURL :: string where
  "StageURL = ''https://qaprodauth.console.redhat.com/openshift/details/s/''"

definition ProductionURL :: string where
  "ProductionURL = ''https://console.redhat.com/openshift/details/s/''"

definition StageEnv :: string where
  "StageEnv = ''https://api.stage.openshift.com''"

definition ProductionEnv :: string where
  "ProductionEnv = ''https://api.openshift.com''"

subsection \<open>\<^verbatim>\<open>controlPlaneConfig\<close> (lines 386 to 391)\<close>

definition controlPlaneConfig :: "cluster \<Rightarrow> string" where
  "controlPlaneConfig c =
     (if Hypershift_Enabled (Cluster_Hypershift c) then ''ROSA Service Hosted''
      else ''Customer Hosted'')"

subsection \<open>\<^verbatim>\<open>clusterMultiAZ\<close> (lines 393 to 414)\<close>

text \<open>
  The loop of lines 399 to 401 over \<^verbatim>\<open>nodePools\<close>: \<^verbatim>\<open>multiAzMap\<close> is a
  \<^verbatim>\<open>map[string]struct{}\<close>, a set of strings; \<^verbatim>\<open>len\<close> of it is the number of its keys.
\<close>

fun multiAzLoop :: "string set \<Rightarrow> nodePool list \<Rightarrow> string set" where
  "multiAzLoop multiAzMap [] = multiAzMap"
| "multiAzLoop multiAzMap (nodePool # rest) =
     multiAzLoop (insert (NodePool_AvailabilityZone nodePool) multiAzMap) rest"

text \<open>The value of \<^verbatim>\<open>dataPlaneAvailability\<close> at line 406.\<close>

definition dataPlaneAvailability :: "cluster \<Rightarrow> nodePool list \<Rightarrow> string" where
  "dataPlaneAvailability c nodePools =
     (if Cluster_NodePools c \<noteq> None then
        (if card (multiAzLoop {} nodePools) > 1 then ''MultiAZ'' else ''SingleAZ'')
      else ''SingleAZ'')"

definition clusterMultiAZ :: "cluster \<Rightarrow> nodePool list \<Rightarrow> string" where
  "clusterMultiAZ c nodePools =
     (if Hypershift_Enabled (Cluster_Hypershift c) then
        ''Availability:\<newline>'' @
        '' - Control Plane:           MultiAZ\<newline>'' @
        '' - Data Plane:              '' @ dataPlaneAvailability c nodePools @ ''\<newline>''
      else
        ''Multi-AZ:                   '' @ fmt_t (Cluster_MultiAZ c) @ ''\<newline>'')"

subsection \<open>\<^verbatim>\<open>clusterInfraConfig\<close> (lines 416 to 500)\<close>

text \<open>
  The loop of lines 424 to 435 (hosted), on the triple
  \<open>(minNodes, maxNodes, currentNodes)\<close>.
\<close>

fun nodePoolsLoop ::
  "go_int \<times> go_int \<times> go_int \<Rightarrow> nodePool list \<Rightarrow> go_int \<times> go_int \<times> go_int" where
  "nodePoolsLoop acc [] = acc"
| "nodePoolsLoop (minNodes, maxNodes, currentNodes) (nodePool # rest) =
     (let (minNodes', maxNodes') =
            (case NodePool_Autoscaling nodePool of
               Some a \<Rightarrow>
                 (minNodes + NodePoolAutoscaling_MinReplica a,
                  maxNodes + NodePoolAutoscaling_MaxReplica a)
             | None \<Rightarrow>
                 (minNodes + NodePool_Replicas nodePool,
                  maxNodes + NodePool_Replicas nodePool));
          currentNodes' =
            (case NodePool_Status nodePool of
               Some s \<Rightarrow> currentNodes + NodePoolStatus_CurrentReplicas s
             | None \<Rightarrow> currentNodes)
      in nodePoolsLoop (minNodes', maxNodes', currentNodes') rest)"

text \<open>The loop of lines 459 to 467 (classic), on the pair \<open>(minNodes, maxNodes)\<close>.\<close>

fun machinePoolsLoop :: "go_int \<times> go_int \<Rightarrow> machinePool list \<Rightarrow> go_int \<times> go_int" where
  "machinePoolsLoop acc [] = acc"
| "machinePoolsLoop (minNodes, maxNodes) (machinePool # rest) =
     machinePoolsLoop
       (case MachinePool_Autoscaling machinePool of
          Some a \<Rightarrow>
            (minNodes + MachinePoolAutoscaling_MinReplicas a,
             maxNodes + MachinePoolAutoscaling_MaxReplicas a)
        | None \<Rightarrow>
            (minNodes + MachinePool_Replicas machinePool,
             maxNodes + MachinePool_Replicas machinePool))
       rest"

text \<open>Lines 468 to 475: the compute nodes of the cluster itself are added.\<close>

definition addCompute :: "cluster \<Rightarrow> go_int \<times> go_int \<Rightarrow> go_int \<times> go_int" where
  "addCompute c acc =
     (case acc of (minNodes, maxNodes) \<Rightarrow>
        (case ClusterNodes_AutoscaleCompute (Cluster_Nodes c) of
           Some a \<Rightarrow>
             (minNodes + MachinePoolAutoscaling_MinReplicas a,
              maxNodes + MachinePoolAutoscaling_MaxReplicas a)
         | None \<Rightarrow>
             (minNodes + ClusterNodes_Compute (Cluster_Nodes c),
              maxNodes + ClusterNodes_Compute (Cluster_Nodes c))))"

text \<open>
  The values of \<open>(minNodes, maxNodes, currentNodes)\<close> at line 436 and of
  \<open>(minNodes, maxNodes)\<close> at line 477.
\<close>

definition hostedNodes :: "nodePool list \<Rightarrow> go_int \<times> go_int \<times> go_int" where
  "hostedNodes nodePools = nodePoolsLoop (0, 0, 0) nodePools"

definition classicNodes :: "cluster \<Rightarrow> machinePool list \<Rightarrow> go_int \<times> go_int" where
  "classicNodes c machinePools = addCompute c (machinePoolsLoop (0, 0) machinePools)"

text \<open>
  The parameters \<^verbatim>\<open>clusterKey\<close> and \<^verbatim>\<open>r\<close> of the Go function are not used in its
  body; they are not parameters here.
\<close>

definition clusterInfraConfig :: "cluster \<Rightarrow> machinePool list \<Rightarrow> nodePool list \<Rightarrow> string" where
  "clusterInfraConfig c machinePools nodePools =
     (if Hypershift_Enabled (Cluster_Hypershift c) then
        (case hostedNodes nodePools of (minNodes, maxNodes, currentNodes) \<Rightarrow>
           if minNodes \<noteq> maxNodes then
             ''Nodes:\<newline>'' @
             '' - Compute (Autoscaled):    '' @ fmt_d minNodes @ ''-'' @ fmt_d maxNodes @
             ''\<newline>'' @
             '' - Compute (current):       '' @ fmt_d currentNodes @ ''\<newline>''
           else
             ''Nodes:\<newline>'' @
             '' - Compute (desired):       '' @ fmt_d maxNodes @ ''\<newline>'' @
             '' - Compute (current):       '' @ fmt_d currentNodes @ ''\<newline>'')
      else
        (case classicNodes c machinePools of (minNodes, maxNodes) \<Rightarrow>
           if minNodes = maxNodes then
             ''Nodes:\<newline>'' @
             '' - Control plane:           '' @ fmt_d (ClusterNodes_Master (Cluster_Nodes c)) @
             ''\<newline>'' @
             '' - Infra:                   '' @ fmt_d (ClusterNodes_Infra (Cluster_Nodes c)) @
             ''\<newline>'' @
             '' - Compute:                 '' @ fmt_d minNodes @ ''\<newline>''
           else
             ''Nodes:\<newline>'' @
             '' - Control plane:           '' @ fmt_d (ClusterNodes_Master (Cluster_Nodes c)) @
             ''\<newline>'' @
             '' - Infra:                   '' @ fmt_d (ClusterNodes_Infra (Cluster_Nodes c)) @
             ''\<newline>'' @
             '' - Compute (Autoscaled):    '' @ fmt_d minNodes @ ''-'' @ fmt_d maxNodes @
             ''\<newline>''))"

subsection \<open>\<^verbatim>\<open>getDetailsLink\<close> (lines 502 to 511)\<close>

text \<open>A Go \<^verbatim>\<open>switch\<close> on a string takes the first case that is equal to it.\<close>

definition getDetailsLink :: "string \<Rightarrow> string" where
  "getDetailsLink environment =
     (if environment = StageEnv then StageURL
      else if environment = ProductionEnv then ProductionURL
      else '''')"

subsection \<open>\<^verbatim>\<open>getUseworkloadMonitoring\<close> (lines 513 to 518) and \<^verbatim>\<open>BillingAccount\<close> (lines 574 to 579)\<close>

definition getUseworkloadMonitoring :: "bool \<Rightarrow> string" where
  "getUseworkloadMonitoring disabled = (if disabled then ''disabled'' else ''enabled'')"

definition BillingAccount :: "cluster \<Rightarrow> bool \<Rightarrow> string" where
  "BillingAccount c isHostedControlPlane =
     (if \<not> isHostedControlPlane \<or> AWS_BillingAccountID (Cluster_AWS c) = '''' then ''''
      else ''AWS Billing Account:        '' @ AWS_BillingAccountID (Cluster_AWS c) @
           ''\<newline>'')"

subsection \<open>The structured output: \<^verbatim>\<open>formatCluster\<close> and \<^verbatim>\<open>formatClusterHypershift\<close> (lines 520 to 572)\<close>

text \<open>
  A value of a \<^verbatim>\<open>map[string]interface{}\<close> that \<^verbatim>\<open>json.Unmarshal\<close> fills or that the
  code stores: a string, a map, or another JSON value (a number is kept as its
  text).
\<close>

datatype "value" =
  VNull | VBool bool | VNumber string | VString string | VArray "value list"
  | VMap "string \<Rightarrow> value option"

record arn =
  ARN_AccountID :: string

datatype call =
  Call_GetScheduledUpgrade | Call_GetControlPlaneScheduledUpgrade | Call_GetNodePools
  | Call_GetMachinePools | Call_GetLimitedSupportReasons

text \<open>
  What the code obtains from other packages, as it is when \<^verbatim>\<open>run\<close> is entered.
  A Go function that returns a value and an \<^verbatim>\<open>error\<close> is a function into a sum:
  \<open>Inl\<close> is the error (the code looks at \<^verbatim>\<open>err\<close> first and never at the value
  beside a non-nil \<^verbatim>\<open>err\<close>). \<^verbatim>\<open>output.Print\<close> answers the text it has written to
  standard output and the error it returns, if any.
\<close>

record env =
  output_HasFlag :: bool
  output_Print :: "(string \<rightharpoonup> value) \<Rightarrow> string \<times> error option"
  cmv1_MarshalCluster :: "cluster \<Rightarrow> error + string"
  json_Unmarshal :: "string \<Rightarrow> error + (string \<rightharpoonup> value)"
  arn_Parse :: "string \<Rightarrow> error + arn"
  properties_CreatorARN :: string
  ocm_NetworkTypes_0 :: string
  OCMClient_GetScheduledUpgrade ::
    "string \<Rightarrow> error + (upgradePolicy option \<times> upgradePolicyState option)"
  OCMClient_GetControlPlaneScheduledUpgrade ::
    "string \<Rightarrow> error + controlPlaneUpgradePolicy option"
  OCMClient_GetNodePools :: "string \<Rightarrow> error + nodePool list"
  OCMClient_GetMachinePools :: "string \<Rightarrow> error + machinePool list"
  OCMClient_GetLimitedSupportReasons :: "string \<Rightarrow> error + limitedSupportReason list"
  OCMClient_GetConnectionURL :: string

definition formatCluster ::
  "env \<Rightarrow> cluster \<Rightarrow> upgradePolicy option \<Rightarrow> upgradePolicyState option \<Rightarrow>
   error + (string \<rightharpoonup> value)" where
  "formatCluster env c scheduledUpgrade upgradeState =
     (case cmv1_MarshalCluster env c of
        Inl err \<Rightarrow> Inl err
      | Inr b \<Rightarrow>
          (case json_Unmarshal env b of
             Inl err \<Rightarrow> Inl err
           | Inr ret \<Rightarrow>
               if scheduledUpgrade \<noteq> None \<and>
                  upgradeState \<noteq> None \<and>
                  length (UpgradePolicy_Version scheduledUpgrade) > 0 \<and>
                  length (UpgradePolicyState_Value upgradeState) > 0
               then
                 (let upgrade = Map.empty;
                      upgrade = upgrade(''version'' \<mapsto> VString (UpgradePolicy_Version scheduledUpgrade));
                      upgrade = upgrade(''state'' \<mapsto> VString (UpgradePolicyState_Value upgradeState));
                      upgrade = upgrade(''nextRun'' \<mapsto>
                        VString (Format_upgrade (UpgradePolicy_NextRun scheduledUpgrade)))
                  in Inr (ret(''scheduledUpgrade'' \<mapsto> VMap upgrade)))
               else Inr ret))"

definition formatClusterHypershift ::
  "env \<Rightarrow> cluster \<Rightarrow> controlPlaneUpgradePolicy option \<Rightarrow> error + (string \<rightharpoonup> value)" where
  "formatClusterHypershift env c scheduledUpgrade =
     (case cmv1_MarshalCluster env c of
        Inl err \<Rightarrow> Inl err
      | Inr b \<Rightarrow>
          (case json_Unmarshal env b of
             Inl err \<Rightarrow> Inl err
           | Inr ret \<Rightarrow>
               if scheduledUpgrade \<noteq> None \<and>
                  ControlPlaneUpgradePolicy_State scheduledUpgrade \<noteq> None \<and>
                  length (ControlPlaneUpgradePolicy_Version scheduledUpgrade) > 0 \<and>
                  length (ControlPlaneUpgradePolicyState_Value
                            (ControlPlaneUpgradePolicy_State scheduledUpgrade)) > 0
               then
                 (let upgrade = Map.empty;
                      upgrade = upgrade(''version'' \<mapsto>
                        VString (ControlPlaneUpgradePolicy_Version scheduledUpgrade));
                      upgrade = upgrade(''state'' \<mapsto>
                        VString (ControlPlaneUpgradePolicyState_Value
                                   (ControlPlaneUpgradePolicy_State scheduledUpgrade)));
                      upgrade = upgrade(''nextRun'' \<mapsto>
                        VString (Format_upgrade (ControlPlaneUpgradePolicy_NextRun scheduledUpgrade)))
                  in Inr (ret(''scheduledUpgrade'' \<mapsto> VMap upgrade)))
               else Inr ret))"

subsection \<open>The text report of \<^verbatim>\<open>run\<close> (lines 118 to 383)\<close>

text \<open>
  The report is built in the variable \<^verbatim>\<open>str\<close>: a first \<^verbatim>\<open>Sprintf\<close> (lines 183 to
  223), then a sequence of statements of the form
  \<^verbatim>\<open>str = fmt.Sprintf("%s" + ..., str, ...)\<close>, most of them under a condition. Each
  statement, or group of statements, is a function from the value of \<^verbatim>\<open>str\<close>
  before it to the value after it.
\<close>

text \<open>Lines 124 to 145: \<^verbatim>\<open>phase\<close>.\<close>

definition clusterPhase :: "cluster \<Rightarrow> string" where
  "clusterPhase c =
     (let phase = '''';
          phase =
            (if Cluster_State c = ClusterStateWaiting then ''(Waiting for user action)''
             else if Cluster_State c = ClusterStatePending then ''(Preparing account)''
             else if Cluster_State c = ClusterStateInstalling then
               (let phase =
                      (if \<not> ClusterStatus_DNSReady (Cluster_Status c) then ''(DNS setup in progress)''
                       else phase)
                in if ClusterStatus_ProvisionErrorMessage (Cluster_Status c) \<noteq> '''' then
                     (let errorCode =
                            (if ClusterStatus_ProvisionErrorCode (Cluster_Status c) \<noteq> '''' then
                               ClusterStatus_ProvisionErrorCode (Cluster_Status c) @ '' - ''
                             else '''')
                      in ''('' @ errorCode @ ''Install is taking longer than expected)'')
                   else phase)
             else phase)
      in if ClusterStatus_Description (Cluster_Status c) \<noteq> '''' then
           ''('' @ ClusterStatus_Description (Cluster_Status c) @ '')''
         else phase)"

text \<open>Lines 147 to 150: \<^verbatim>\<open>clusterDNS\<close>.\<close>

definition clusterDNS :: "cluster \<Rightarrow> string" where
  "clusterDNS c =
     (if Cluster_Status c \<noteq> None \<and> ClusterStatus_DNSReady (Cluster_Status c) then
        Cluster_Name c @ ''.'' @ DNS_BaseDomain (Cluster_DNS c)
      else ''Not ready'')"

text \<open>Lines 154 to 157: \<^verbatim>\<open>isPrivate\<close>.\<close>

definition isPrivate :: "cluster \<Rightarrow> string" where
  "isPrivate c =
     (if ClusterAPI_Listening (Cluster_API c) = ListeningMethodInternal then ''Yes''
      else ''No'')"

text \<open>Lines 161 to 167: \<^verbatim>\<open>networkType\<close>.\<close>

definition networkType :: "env \<Rightarrow> cluster \<Rightarrow> string" where
  "networkType env c =
     (if Network_Type (Cluster_Network c) \<noteq> ocm_NetworkTypes_0 env then
        '' - Type:                    '' @ Network_Type (Cluster_Network c) @ ''\<newline>''
      else '''')"

text \<open>Lines 183 to 223: the short cluster description.\<close>

definition shortDescription ::
  "env \<Rightarrow> cluster \<Rightarrow> arn \<Rightarrow> machinePool list \<Rightarrow> nodePool list \<Rightarrow> string" where
  "shortDescription env c creatorARN machinePools nodePools =
     ''\<newline>'' @
     ''Name:                       '' @ Cluster_Name c @ ''\<newline>'' @
     ''ID:                         '' @ Cluster_ID c @ ''\<newline>'' @
     ''External ID:                '' @ Cluster_ExternalID c @ ''\<newline>'' @
     ''Control Plane:              '' @ controlPlaneConfig c @ ''\<newline>'' @
     ''OpenShift Version:          '' @ Cluster_OpenshiftVersion c @ ''\<newline>'' @
     ''Channel Group:              '' @ Version_ChannelGroup (Cluster_Version c) @
     ''\<newline>'' @
     ''DNS:                        '' @ clusterDNS c @ ''\<newline>'' @
     ''AWS Account:                '' @ ARN_AccountID creatorARN @ ''\<newline>'' @
     BillingAccount c (Hypershift_Enabled (Cluster_Hypershift c)) @
     ''API URL:                    '' @ ClusterAPI_URL (Cluster_API c) @ ''\<newline>'' @
     ''Console URL:                '' @ ClusterConsole_URL (Cluster_Console c) @ ''\<newline>'' @
     ''Region:                     '' @ CloudRegion_ID (Cluster_Region c) @ ''\<newline>'' @
     clusterMultiAZ c nodePools @ clusterInfraConfig c machinePools nodePools @
     ''Network:\<newline>'' @
     networkType env c @ '' - Service CIDR:            '' @
     Network_ServiceCIDR (Cluster_Network c) @ ''\<newline>'' @
     '' - Machine CIDR:            '' @ Network_MachineCIDR (Cluster_Network c) @ ''\<newline>'' @
     '' - Pod CIDR:                '' @ Network_PodCIDR (Cluster_Network c) @ ''\<newline>'' @
     '' - Host Prefix:             /'' @ fmt_d (Network_HostPrefix (Cluster_Network c)) @
     ''\<newline>''"

text \<open>Lines 225 to 227.\<close>

definition add_InfraID :: "cluster \<Rightarrow> string \<Rightarrow> string" where
  "add_InfraID c str =
     (if Cluster_InfraID c \<noteq> '''' then
        str @ ''Infra ID:                   '' @ Cluster_InfraID c @ ''\<newline>''
      else str)"

text \<open>Lines 229 to 246. Inside the test of line 229 the proxy is not \<^verbatim>\<open>nil\<close>.\<close>

definition add_Proxy :: "cluster \<Rightarrow> string \<Rightarrow> string" where
  "add_Proxy c str =
     (case Cluster_Proxy c of
        None \<Rightarrow> str
      | Some p \<Rightarrow>
          if Proxy_HTTPProxy p \<noteq> '''' \<or> Proxy_HTTPSProxy p \<noteq> '''' then
            (let str = str @ ''Proxy:\<newline>'';
                 str =
                   (if Proxy_HTTPProxy p \<noteq> '''' then
                      str @ '' - HTTPProxy:               '' @ Proxy_HTTPProxy p @
                      ''\<newline>''
                    else str);
                 str =
                   (if Proxy_HTTPSProxy p \<noteq> '''' then
                      str @ '' - HTTPSProxy:              '' @ Proxy_HTTPSProxy p @
                      ''\<newline>''
                    else str)
             in if Proxy_NoProxy p \<noteq> '''' then
                  str @ '' - NoProxy:                 '' @ Proxy_NoProxy p @ ''\<newline>''
                else str)
          else str)"

text \<open>Lines 248 to 250.\<close>

definition add_TrustBundle :: "cluster \<Rightarrow> string \<Rightarrow> string" where
  "add_TrustBundle c str =
     (if Cluster_AdditionalTrustBundle c \<noteq> '''' then
        str @ ''Additional trust bundle:    REDACTED\<newline>''
      else str)"

text \<open>Lines 282 to 286: the loop over the operator roles.\<close>

fun operatorRolesLoop :: "string \<Rightarrow> operatorIAMRole list \<Rightarrow> string" where
  "operatorRolesLoop str [] = str"
| "operatorRolesLoop str (operatorIAMRole # rest) =
     operatorRolesLoop
       (str @ '' - '' @ OperatorIAMRole_RoleARN operatorIAMRole @ ''\<newline>'')
       rest"

text \<open>Lines 266 to 279.\<close>

definition add_InstanceIAMRoles :: "sts \<Rightarrow> string \<Rightarrow> string" where
  "add_InstanceIAMRoles s str =
     (if InstanceIAMRoles_MasterRoleARN (STS_InstanceIAMRoles s) \<noteq> '''' \<or>
         InstanceIAMRoles_WorkerRoleARN (STS_InstanceIAMRoles s) \<noteq> '''' then
        (let str = str @ ''Instance IAM Roles:\<newline>'';
             str =
               (if InstanceIAMRoles_MasterRoleARN (STS_InstanceIAMRoles s) \<noteq> '''' then
                  str @ '' - Control plane:           '' @
                  InstanceIAMRoles_MasterRoleARN (STS_InstanceIAMRoles s) @ ''\<newline>''
                else str)
         in if InstanceIAMRoles_WorkerRoleARN (STS_InstanceIAMRoles s) \<noteq> '''' then
              str @ '' - Worker:                  '' @
              InstanceIAMRoles_WorkerRoleARN (STS_InstanceIAMRoles s) @ ''\<newline>''
            else str)
      else str)"

text \<open>Lines 252 to 295.\<close>

definition add_STS :: "cluster \<Rightarrow> string \<Rightarrow> string" where
  "add_STS c str =
     (let s = AWS_STS (Cluster_AWS c) in
      if STS_RoleARN s \<noteq> '''' then
        (let str = str @ ''STS Role ARN:               '' @ STS_RoleARN s @ ''\<newline>'';
             str =
               (if STS_ExternalID s \<noteq> '''' then
                  str @ ''STS External ID:            '' @ STS_ExternalID s @ ''\<newline>''
                else str);
             str =
               (if STS_SupportRoleARN s \<noteq> '''' then
                  str @ ''Support Role ARN:           '' @ STS_SupportRoleARN s @ ''\<newline>''
                else str);
             str = add_InstanceIAMRoles s str;
             str =
               (if length (STS_OperatorIAMRoles s) > 0 then
                  operatorRolesLoop (str @ ''Operator IAM Roles:\<newline>'') (STS_OperatorIAMRoles s)
                else str);
             awsManaged = (if STS_ManagedPolicies s then ''Yes'' else ''No'')
         in str @ ''Managed Policies:           '' @ awsManaged @ ''\<newline>'')
      else str)"

text \<open>Lines 297 to 303.\<close>

definition add_State :: "cluster \<Rightarrow> string \<Rightarrow> string" where
  "add_State c str =
     str @ ''State:                      '' @ Cluster_State c @ '' '' @ clusterPhase c @
     ''\<newline>'' @
     ''Private:                    '' @ isPrivate c @ ''\<newline>'' @
     ''Created:                    '' @ Format_created (Cluster_CreationTimestamp c) @
     ''\<newline>''"

text \<open>Lines 305 to 316.\<close>

definition add_UserWorkloadMonitoring :: "cluster \<Rightarrow> string \<Rightarrow> string" where
  "add_UserWorkloadMonitoring c str =
     (if Cluster_DisableUserWorkloadMonitoring c then
        str @ ''User Workload Monitoring:   '' @
        getUseworkloadMonitoring (Cluster_DisableUserWorkloadMonitoring c) @ ''\<newline>''
      else str)"

definition add_FIPS :: "cluster \<Rightarrow> string \<Rightarrow> string" where
  "add_FIPS c str =
     (if Cluster_FIPS c then
        str @ ''FIPS mode:                  '' @ ''enabled'' @ ''\<newline>''
      else str)"

text \<open>Lines 317 to 321.\<close>

definition add_DetailsPage :: "cluster \<Rightarrow> string \<Rightarrow> string \<Rightarrow> string" where
  "add_DetailsPage c detailsPage str =
     (if detailsPage \<noteq> '''' then
        str @ ''Details Page:               '' @ detailsPage @
        Subscription_ID (Cluster_Subscription c) @ ''\<newline>''
      else str)"

text \<open>Lines 322 to 333.\<close>

definition managementType :: "cluster \<Rightarrow> string" where
  "managementType c =
     (case STS_OidcConfig (AWS_STS (Cluster_AWS c)) of
        None \<Rightarrow> ''Classic''
      | Some oc \<Rightarrow> if OidcConfig_Managed oc then ''Managed'' else ''Unmanaged'')"

definition add_OIDCEndpointURL :: "cluster \<Rightarrow> string \<Rightarrow> string" where
  "add_OIDCEndpointURL c str =
     (if STS_OIDCEndpointURL (AWS_STS (Cluster_AWS c)) \<noteq> '''' then
        str @ ''OIDC Endpoint URL:          '' @ STS_OIDCEndpointURL (AWS_STS (Cluster_AWS c)) @
        '' ('' @ managementType c @ '')\<newline>''
      else str)"

text \<open>Lines 334 to 354: the scheduled upgrade.\<close>

definition add_ScheduledUpgrade ::
  "bool \<Rightarrow> upgradePolicy option \<Rightarrow> upgradePolicyState option \<Rightarrow>
   controlPlaneUpgradePolicy option \<Rightarrow> string \<Rightarrow> string" where
  "add_ScheduledUpgrade isHypershift scheduledUpgrade upgradeState controlPlaneScheduledUpgrade str =
     (if \<not> isHypershift then
        (if scheduledUpgrade \<noteq> None then
           str @ ''Scheduled Upgrade:          '' @ UpgradePolicyState_Value upgradeState @
           '' '' @ UpgradePolicy_Version scheduledUpgrade @ '' on '' @
           Format_upgrade (UpgradePolicy_NextRun scheduledUpgrade) @ ''\<newline>''
         else str)
      else
        (if controlPlaneScheduledUpgrade \<noteq> None then
           str @ ''Scheduled Upgrade:          '' @
           ControlPlaneUpgradePolicyState_Value (ControlPlaneUpgradePolicy_State controlPlaneScheduledUpgrade) @
           '' '' @ ControlPlaneUpgradePolicy_Version controlPlaneScheduledUpgrade @ '' on '' @
           Format_upgrade (ControlPlaneUpgradePolicy_NextRun controlPlaneScheduledUpgrade) @
           ''\<newline>''
         else str))"

text \<open>Lines 356 to 364.\<close>

definition add_ProvisioningError :: "cluster \<Rightarrow> string \<Rightarrow> string" where
  "add_ProvisioningError c str =
     (if ClusterStatus_State (Cluster_Status c) = ClusterStateError then
        str @ ''Provisioning Error Code:    '' @
        ClusterStatus_ProvisionErrorCode (Cluster_Status c) @ ''\<newline>'' @
        ''Provisioning Error Message: '' @
        ClusterStatus_ProvisionErrorMessage (Cluster_Status c) @ ''\<newline>''
      else str)"

text \<open>Lines 374 to 379: the loop over the limited-support reasons.\<close>

fun reasonsLoop :: "string \<Rightarrow> limitedSupportReason list \<Rightarrow> string" where
  "reasonsLoop str [] = str"
| "reasonsLoop str (reason # rest) =
     reasonsLoop
       (str @ '' - Summary:                 '' @ LimitedSupportReason_Summary reason @
        ''\<newline>'' @
        '' - Details:                 '' @ LimitedSupportReason_Details reason @ ''\<newline>'')
       rest"

text \<open>Lines 371 to 380: the limited-support section and the final line feed.\<close>

definition add_LimitedSupport :: "limitedSupportReason list \<Rightarrow> string \<Rightarrow> string" where
  "add_LimitedSupport limitedSupportReasons str =
     (let str =
            (if length limitedSupportReasons > 0 then
               str @ ''Limited Support:\<newline>''
             else str);
          str = reasonsLoop str limitedSupportReasons
      in str @ ''\<newline>'')"

text \<open>The value of \<^verbatim>\<open>str\<close> at line 365, before the limited-support reasons are fetched.\<close>

definition report ::
  "env \<Rightarrow> cluster \<Rightarrow> arn \<Rightarrow> machinePool list \<Rightarrow> nodePool list \<Rightarrow> upgradePolicy option \<Rightarrow>
   upgradePolicyState option \<Rightarrow> controlPlaneUpgradePolicy option \<Rightarrow> string" where
  "report env c creatorARN machinePools nodePools scheduledUpgrade upgradeState
     controlPlaneScheduledUpgrade =
     (let str = shortDescription env c creatorARN machinePools nodePools;
          str = add_InfraID c str;
          str = add_Proxy c str;
          str = add_TrustBundle c str;
          str = add_STS c str;
          str = add_State c str;
          str = add_UserWorkloadMonitoring c str;
          str = add_FIPS c str;
          str = add_DetailsPage c (getDetailsLink (OCMClient_GetConnectionURL env)) str;
          str = add_OIDCEndpointURL c str;
          str = add_ScheduledUpgrade (Hypershift_Enabled (Cluster_Hypershift c))
                  scheduledUpgrade upgradeState controlPlaneScheduledUpgrade str
      in add_ProvisioningError c str)"

subsection \<open>\<^verbatim>\<open>run\<close> (lines 57 to 384)\<close>

text \<open>
  What a run of the command does: the calls it has made to the OCM client, each with
  the error it returned (\<open>None\<close> for \<^verbatim>\<open>nil\<close>), in order; the text written to
  standard output; the messages given to \<^verbatim>\<open>r.Reporter.Errorf\<close>, in order; and the
  status of \<^verbatim>\<open>os.Exit\<close>, \<open>None\<close> when \<^verbatim>\<open>run\<close> returns.
\<close>

record outcome =
  Calls :: "(call \<times> error option) list"
  Stdout :: string
  Errorf :: "string list"
  Exit :: "nat option"

text \<open>\<^verbatim>\<open>r.Reporter.Errorf(...)\<close> followed by \<^verbatim>\<open>os.Exit(1)\<close>, nothing having been printed.\<close>

definition exit1 :: "(call \<times> error option) list \<Rightarrow> string \<Rightarrow> outcome" where
  "exit1 calls msg = \<lparr>Calls = calls, Stdout = '''', Errorf = [msg], Exit = Some 1\<rparr>"

text \<open>
  Lines 83 to 95 and 103 to 115, inside \<^verbatim>\<open>if output.HasFlag()\<close>: \<open>f\<close> is the result
  of \<^verbatim>\<open>formatCluster\<close> or \<^verbatim>\<open>formatClusterHypershift\<close>.
\<close>

definition run_output ::
  "env \<Rightarrow> (call \<times> error option) list \<Rightarrow> error + (string \<rightharpoonup> value) \<Rightarrow> outcome" where
  "run_output env calls f =
     (case f of
        Inl err \<Rightarrow> exit1 calls err
      | Inr m \<Rightarrow>
          (case output_Print env m of
             (printed, Some err) \<Rightarrow>
               \<lparr>Calls = calls, Stdout = printed, Errorf = [err], Exit = Some 1\<rparr>
           | (printed, None) \<Rightarrow>
               \<lparr>Calls = calls, Stdout = printed, Errorf = [], Exit = None\<rparr>))"

text \<open>
  Lines 118 to 384, the text mode. \<open>calls\<close> are the calls made before line 118.
  A \<^verbatim>\<open>nil\<close> slice is the empty list.
\<close>

definition run_text ::
  "env \<Rightarrow> string \<Rightarrow> cluster \<Rightarrow> (call \<times> error option) list \<Rightarrow> upgradePolicy option \<Rightarrow>
   upgradePolicyState option \<Rightarrow> controlPlaneUpgradePolicy option \<Rightarrow> outcome" where
  "run_text env clusterKey c calls scheduledUpgrade upgradeState controlPlaneScheduledUpgrade =
     (let isHypershift = Hypershift_Enabled (Cluster_Hypershift c) in
      case arn_Parse env (map_index (Cluster_Properties c) (properties_CreatorARN env)) of
        Inl err \<Rightarrow>
          exit1 calls
            (''Failed to parse creator ARN for cluster '' @ [CHR 0x27] @ clusterKey @ [CHR 0x27])
      | Inr creatorARN \<Rightarrow>
          (case (if isHypershift then
                   (case OCMClient_GetNodePools env (Cluster_ID c) of
                      Inl err \<Rightarrow> Inl (Call_GetNodePools, err)
                    | Inr nodePools \<Rightarrow> Inr (Call_GetNodePools, [], nodePools))
                 else
                   (case OCMClient_GetMachinePools env (Cluster_ID c) of
                      Inl err \<Rightarrow> Inl (Call_GetMachinePools, err)
                    | Inr machinePools \<Rightarrow> Inr (Call_GetMachinePools, machinePools, [])))
           of
             Inl (call, err) \<Rightarrow>
               exit1 (calls @ [(call, Some err)])
                 (''Failed to get machine pools for cluster '' @ [CHR 0x27] @ clusterKey @
                  [CHR 0x27] @ '': '' @ err)
           | Inr (call, machinePools, nodePools) \<Rightarrow>
               (let str = report env c creatorARN machinePools nodePools scheduledUpgrade
                            upgradeState controlPlaneScheduledUpgrade
                in case OCMClient_GetLimitedSupportReasons env (Cluster_ID c) of
                     Inl err \<Rightarrow>
                       exit1 (calls @ [(call, None), (Call_GetLimitedSupportReasons, Some err)])
                         (''Failed to get limited support reasons for cluster '' @ [CHR 0x27] @
                          Cluster_ID c @ [CHR 0x27] @ '': '' @ err)
                   | Inr limitedSupportReasons \<Rightarrow>
                       \<lparr>Calls = calls @ [(call, None), (Call_GetLimitedSupportReasons, None)],
                        Stdout = add_LimitedSupport limitedSupportReasons str,
                        Errorf = [],
                        Exit = None\<rparr>)))"

text \<open>
  \<^verbatim>\<open>run\<close>. Lines 58 to 69 only call the runtime: \<open>clusterKey\<close> is the result of
  \<^verbatim>\<open>r.GetClusterKey()\<close> and \<open>c\<close> the result of \<^verbatim>\<open>r.FetchCluster()\<close>. The deferred
  \<^verbatim>\<open>r.Cleanup()\<close> belongs to the runtime and is not modelled; \<^verbatim>\<open>os.Exit\<close> skips it.
\<close>

definition run :: "env \<Rightarrow> string \<Rightarrow> cluster \<Rightarrow> outcome" where
  "run env clusterKey c =
     (let isHypershift = Hypershift_Enabled (Cluster_Hypershift c) in
      if \<not> isHypershift then
        (case OCMClient_GetScheduledUpgrade env (Cluster_ID c) of
           Inl err \<Rightarrow>
             exit1 [(Call_GetScheduledUpgrade, Some err)]
               (''Failed to get scheduled upgrades for cluster '' @ [CHR 0x27] @ clusterKey @
                [CHR 0x27] @ '': '' @ err)
         | Inr (scheduledUpgrade, upgradeState) \<Rightarrow>
             if output_HasFlag env then
               run_output env [(Call_GetScheduledUpgrade, None)]
                 (formatCluster env c scheduledUpgrade upgradeState)
             else
               run_text env clusterKey c [(Call_GetScheduledUpgrade, None)]
                 scheduledUpgrade upgradeState None)
      else
        (case OCMClient_GetControlPlaneScheduledUpgrade env (Cluster_ID c) of
           Inl err \<Rightarrow>
             exit1 [(Call_GetControlPlaneScheduledUpgrade, Some err)]
               (''Failed to get scheduled upgrades for cluster '' @ [CHR 0x27] @ clusterKey @
                [CHR 0x27] @ '': '' @ err)
         | Inr controlPlaneScheduledUpgrade \<Rightarrow>
             if output_HasFlag env then
               run_output env [(Call_GetControlPlaneScheduledUpgrade, None)]
                 (formatClusterHypershift env c controlPlaneScheduledUpgrade)
             else
               run_text env clusterKey c [(Call_GetControlPlaneScheduledUpgrade, None)]
                 None None controlPlaneScheduledUpgrade))"

subsection \<open>The contributions of a pool, as the specification words them\<close>

text \<open>
  The specification of the node count aggregator speaks of the contribution of each
  pool: the autoscale minimum (maximum) if the pool has an autoscale configuration,
  otherwise its fixed replica count; and the current replica count that the pool
  reports, 0 if it reports no status. These definitions follow those words; the
  theorems compare the loops of the code with sums of them.
\<close>

definition nodePool_min :: "nodePool \<Rightarrow> go_int" where
  "nodePool_min p =
     (case NodePool_Autoscaling p of
        Some a \<Rightarrow> NodePoolAutoscaling_MinReplica a
      | None \<Rightarrow> NodePool_Replicas p)"

definition nodePool_max :: "nodePool \<Rightarrow> go_int" where
  "nodePool_max p =
     (case NodePool_Autoscaling p of
        Some a \<Rightarrow> NodePoolAutoscaling_MaxReplica a
      | None \<Rightarrow> NodePool_Replicas p)"

definition nodePool_current :: "nodePool \<Rightarrow> go_int" where
  "nodePool_current p =
     (case NodePool_Status p of
        Some s \<Rightarrow> NodePoolStatus_CurrentReplicas s
      | None \<Rightarrow> 0)"

definition machinePool_min :: "machinePool \<Rightarrow> go_int" where
  "machinePool_min p =
     (case MachinePool_Autoscaling p of
        Some a \<Rightarrow> MachinePoolAutoscaling_MinReplicas a
      | None \<Rightarrow> MachinePool_Replicas p)"

definition machinePool_max :: "machinePool \<Rightarrow> go_int" where
  "machinePool_max p =
     (case MachinePool_Autoscaling p of
        Some a \<Rightarrow> MachinePoolAutoscaling_MaxReplicas a
      | None \<Rightarrow> MachinePool_Replicas p)"

text \<open>The cluster-level compute count of a classic cluster, in the same words.\<close>

definition compute_min :: "cluster \<Rightarrow> go_int" where
  "compute_min c =
     (case ClusterNodes_AutoscaleCompute (Cluster_Nodes c) of
        Some a \<Rightarrow> MachinePoolAutoscaling_MinReplicas a
      | None \<Rightarrow> ClusterNodes_Compute (Cluster_Nodes c))"

definition compute_max :: "cluster \<Rightarrow> go_int" where
  "compute_max c =
     (case ClusterNodes_AutoscaleCompute (Cluster_Nodes c) of
        Some a \<Rightarrow> MachinePoolAutoscaling_MaxReplicas a
      | None \<Rightarrow> ClusterNodes_Compute (Cluster_Nodes c))"

subsection \<open>Concrete inputs\<close>

text \<open>
  The descriptors that the theorems are evaluated on. \<open>emptyCluster\<close> is the cluster
  in which nothing is set.
\<close>

definition fixedNodePool :: "string \<Rightarrow> go_int \<Rightarrow> nodePool" where
  "fixedNodePool zone n =
     \<lparr>NodePool_AvailabilityZone = zone, NodePool_Autoscaling = None, NodePool_Replicas = n,
      NodePool_Status = None\<rparr>"

definition autoscaledNodePool :: "string \<Rightarrow> go_int \<Rightarrow> go_int \<Rightarrow> go_int \<Rightarrow> nodePool" where
  "autoscaledNodePool zone lo hi current =
     \<lparr>NodePool_AvailabilityZone = zone,
      NodePool_Autoscaling =
        Some \<lparr>NodePoolAutoscaling_MinReplica = lo, NodePoolAutoscaling_MaxReplica = hi\<rparr>,
      NodePool_Replicas = 0,
      NodePool_Status = Some \<lparr>NodePoolStatus_CurrentReplicas = current\<rparr>\<rparr>"

definition fixedMachinePool :: "go_int \<Rightarrow> machinePool" where
  "fixedMachinePool n = \<lparr>MachinePool_Autoscaling = None, MachinePool_Replicas = n\<rparr>"

definition autoscaledMachinePool :: "go_int \<Rightarrow> go_int \<Rightarrow> machinePool" where
  "autoscaledMachinePool lo hi =
     \<lparr>MachinePool_Autoscaling =
        Some \<lparr>MachinePoolAutoscaling_MinReplicas = lo, MachinePoolAutoscaling_MaxReplicas = hi\<rparr>,
      MachinePool_Replicas = 0\<rparr>"

definition emptySTS :: sts where
  "emptySTS =
     \<lparr>STS_RoleARN = '''', STS_ExternalID = '''', STS_SupportRoleARN = '''',
      STS_InstanceIAMRoles =
        \<lparr>InstanceIAMRoles_MasterRoleARN = '''', InstanceIAMRoles_WorkerRoleARN = ''''\<rparr>,
      STS_OperatorIAMRoles = [], STS_ManagedPolicies = False, STS_OidcConfig = None,
      STS_OIDCEndpointURL = ''''\<rparr>"

definition emptyCluster :: cluster where
  "emptyCluster =
     \<lparr>Cluster_Name = '''', Cluster_ID = '''', Cluster_ExternalID = '''',
      Cluster_Hypershift = \<lparr>Hypershift_Enabled = False\<rparr>,
      Cluster_OpenshiftVersion = '''',
      Cluster_Version = \<lparr>Version_ChannelGroup = ''''\<rparr>,
      Cluster_DNS = \<lparr>DNS_BaseDomain = ''''\<rparr>,
      Cluster_Status = None,
      Cluster_State = '''',
      Cluster_Properties = Map.empty,
      Cluster_API = \<lparr>ClusterAPI_Listening = '''', ClusterAPI_URL = ''''\<rparr>,
      Cluster_Console = \<lparr>ClusterConsole_URL = ''''\<rparr>,
      Cluster_Region = \<lparr>CloudRegion_ID = ''''\<rparr>,
      Cluster_MultiAZ = False,
      Cluster_NodePools = None,
      Cluster_Nodes =
        \<lparr>ClusterNodes_Master = 0, ClusterNodes_Infra = 0, ClusterNodes_Compute = 0,
         ClusterNodes_AutoscaleCompute = None\<rparr>,
      Cluster_Network =
        \<lparr>Network_Type = '''', Network_ServiceCIDR = '''', Network_MachineCIDR = '''',
         Network_PodCIDR = '''', Network_HostPrefix = 0\<rparr>,
      Cluster_InfraID = '''',
      Cluster_Proxy = None,
      Cluster_AdditionalTrustBundle = '''',
      Cluster_AWS = \<lparr>AWS_STS = emptySTS, AWS_BillingAccountID = ''''\<rparr>,
      Cluster_CreationTimestamp = zeroTime,
      Cluster_DisableUserWorkloadMonitoring = False,
      Cluster_FIPS = False,
      Cluster_Subscription = \<lparr>Subscription_ID = ''''\<rparr>\<rparr>"

text \<open>
  A hosted cluster whose descriptor has its own node-pool field set, one whose
  descriptor has none, and a classic cluster with three masters, two infra nodes and
  a cluster-level compute count.
\<close>

definition hostedCluster :: cluster where
  "hostedCluster =
     emptyCluster\<lparr>Cluster_Hypershift := \<lparr>Hypershift_Enabled = True\<rparr>, Cluster_NodePools := Some []\<rparr>"

definition hostedClusterNoNodePools :: cluster where
  "hostedClusterNoNodePools = emptyCluster\<lparr>Cluster_Hypershift := \<lparr>Hypershift_Enabled = True\<rparr>\<rparr>"

definition classicCluster :: "go_int \<Rightarrow> machinePoolAutoscaling option \<Rightarrow> cluster" where
  "classicCluster compute autoscaleCompute =
     emptyCluster\<lparr>Cluster_Nodes :=
       \<lparr>ClusterNodes_Master = 3, ClusterNodes_Infra = 2, ClusterNodes_Compute = compute,
        ClusterNodes_AutoscaleCompute = autoscaleCompute\<rparr>\<rparr>"

text \<open>
  Collaborators for the concrete runs. In \<open>okEnv\<close> no output flag is given and every
  call succeeds: no upgrade is scheduled, there is no pool and no limited-support
  reason. The other environments differ from it in one answer each.
\<close>

definition okEnv :: env where
  "okEnv =
     \<lparr>output_HasFlag = False,
      output_Print = (\<lambda>m. (''{}'', None)),
      cmv1_MarshalCluster = (\<lambda>c. Inr ''{}''),
      json_Unmarshal = (\<lambda>b. Inr Map.empty),
      arn_Parse = (\<lambda>s. Inr \<lparr>ARN_AccountID = ''123456789012''\<rparr>),
      properties_CreatorARN = ''rosa_creator_arn'',
      ocm_NetworkTypes_0 = ''OpenShiftSDN'',
      OCMClient_GetScheduledUpgrade = (\<lambda>id. Inr (None, None)),
      OCMClient_GetControlPlaneScheduledUpgrade = (\<lambda>id. Inr None),
      OCMClient_GetNodePools = (\<lambda>id. Inr []),
      OCMClient_GetMachinePools = (\<lambda>id. Inr []),
      OCMClient_GetLimitedSupportReasons = (\<lambda>id. Inr []),
      OCMClient_GetConnectionURL = ''https://api.openshift.com''\<rparr>"

definition upgradeFailsEnv :: env where
  "upgradeFailsEnv =
     okEnv\<lparr>OCMClient_GetScheduledUpgrade := (\<lambda>id. Inl ''connection refused''),
            OCMClient_GetControlPlaneScheduledUpgrade := (\<lambda>id. Inl ''connection refused'')\<rparr>"

definition poolsFailEnv :: env where
  "poolsFailEnv =
     okEnv\<lparr>OCMClient_GetNodePools := (\<lambda>id. Inl ''connection refused''),
            OCMClient_GetMachinePools := (\<lambda>id. Inl ''connection refused'')\<rparr>"

definition reasonsFailEnv :: env where
  "reasonsFailEnv =
     okEnv\<lparr>OCMClient_GetLimitedSupportReasons := (\<lambda>id. Inl ''connection refused'')\<rparr>"

definition twoReasons :: "limitedSupportReason list" where
  "twoReasons =
     [\<lparr>LimitedSupportReason_Summary = ''S1'', LimitedSupportReason_Details = ''D1''\<rparr>,
      \<lparr>LimitedSupportReason_Summary = ''S2'', LimitedSupportReason_Details = ''D2''\<rparr>]"

definition reasonsEnv :: env where
  "reasonsEnv = okEnv\<lparr>OCMClient_GetLimitedSupportReasons := (\<lambda>id. Inr twoReasons)\<rparr>"

text \<open>
  Upgrade policies: one with a version and no next-run time, its state, and the same
  for the control plane of a hosted cluster.
\<close>

definition policyNoNextRun :: upgradePolicy where
  "policyNoNextRun = \<lparr>upgradePolicy_version = ''4.12.1'', upgradePolicy_nextRun = None\<rparr>"

definition stateScheduled :: upgradePolicyState where
  "stateScheduled = \<lparr>upgradePolicyState_value = ''scheduled''\<rparr>"

definition controlPlanePolicyNoNextRun :: controlPlaneUpgradePolicy where
  "controlPlanePolicyNoNextRun =
     \<lparr>controlPlaneUpgradePolicy_state =
        Some \<lparr>controlPlaneUpgradePolicyState_value = ''scheduled''\<rparr>,
      controlPlaneUpgradePolicy_version = ''4.12.1'',
      controlPlaneUpgradePolicy_nextRun = None\<rparr>"

definition nextRunExample :: time where
  "nextRunExample =
     \<lparr>Time_Year = 2023, Time_Month = March, Time_Day = 7, Time_Hour = 9, Time_Minute = 5,
      Time_Second = 0, Time_Zone = ''UTC''\<rparr>"

definition policyComplete :: upgradePolicy where
  "policyComplete =
     \<lparr>upgradePolicy_version = ''4.12.1'', upgradePolicy_nextRun = Some nextRunExample\<rparr>"

definition controlPlanePolicyComplete :: controlPlaneUpgradePolicy where
  "controlPlanePolicyComplete =
     \<lparr>controlPlaneUpgradePolicy_state =
        Some \<lparr>controlPlaneUpgradePolicyState_value = ''scheduled''\<rparr>,
      controlPlaneUpgradePolicy_version = ''4.12.1'',
      controlPlaneUpgradePolicy_nextRun = Some nextRunExample\<rparr>"

text \<open>
  Reading the structured output: the entry \<^verbatim>\<open>scheduledUpgrade\<close> of the map that
  \<open>formatCluster\<close> returns (\<open>None\<close> when it returns an error or the map has no such
  entry), and an entry of a value that is a map.
\<close>

definition scheduledUpgradeEntry :: "error + (string \<rightharpoonup> value) \<Rightarrow> value option" where
  "scheduledUpgradeEntry f = (case f of Inl err \<Rightarrow> None | Inr ret \<Rightarrow> ret ''scheduledUpgrade'')"

definition entry :: "value option \<Rightarrow> string \<Rightarrow> value option" where
  "entry v k = (case v of Some (VMap m) \<Rightarrow> m k | _ \<Rightarrow> None)"

section \<open>Theorems\<close>

subsection \<open>Evaluation of the concrete inputs\<close>

lemma hostedCluster_simps:
  "Hypershift_Enabled (Cluster_Hypershift hostedCluster)"
  "Cluster_NodePools hostedCluster = Some []"
  "Hypershift_Enabled (Cluster_Hypershift hostedClusterNoNodePools)"
  "Cluster_NodePools hostedClusterNoNodePools = None"
  by (simp_all add: hostedCluster_def hostedClusterNoNodePools_def emptyCluster_def)

lemma classicCluster_simps:
  "\<not> Hypershift_Enabled (Cluster_Hypershift (classicCluster n a))"
  "Cluster_Nodes (classicCluster n a) =
     \<lparr>ClusterNodes_Master = 3, ClusterNodes_Infra = 2, ClusterNodes_Compute = n,
      ClusterNodes_AutoscaleCompute = a\<rparr>"
  by (simp_all add: classicCluster_def emptyCluster_def)

lemmas pool_defs =
  fixedNodePool_def autoscaledNodePool_def fixedMachinePool_def autoscaledMachinePool_def
  nodePool_min_def nodePool_max_def nodePool_current_def machinePool_min_def
  machinePool_max_def compute_min_def compute_max_def

lemmas fmt_defs = fmt_d_def fmt_int_def decimal.simps digit_char_def

subsection \<open>The link resolver\<close>

lemma envs_distinct: "StageEnv \<noteq> ProductionEnv"
  by (simp add: StageEnv_def ProductionEnv_def)

lemma urls_nonempty: "StageURL \<noteq> ''''" "ProductionURL \<noteq> ''''" "StageURL \<noteq> ProductionURL"
  by (simp_all add: StageURL_def ProductionURL_def)

text \<open>
  Claim C8. For every input string, \<open>getDetailsLink\<close> returns the stage details-page
  prefix exactly when the input is the stage environment URL, the production prefix
  exactly when the input is the production environment URL, and the empty string
  exactly for every other input; the empty string and the two environment URLs
  followed by a slash are among the other inputs.
\<close>

theorem getDetailsLink_exact:
  "(getDetailsLink e = StageURL \<longleftrightarrow> e = StageEnv) \<and>
   (getDetailsLink e = ProductionURL \<longleftrightarrow> e = ProductionEnv) \<and>
   (getDetailsLink e = '''' \<longleftrightarrow> e \<noteq> StageEnv \<and> e \<noteq> ProductionEnv) \<and>
   getDetailsLink '''' = '''' \<and>
   getDetailsLink (StageEnv @ ''/'') = '''' \<and>
   getDetailsLink (ProductionEnv @ ''/'') = ''''"
proof -
  have a: "getDetailsLink e = StageURL \<longleftrightarrow> e = StageEnv"
    using urls_nonempty envs_distinct by (auto simp: getDetailsLink_def)
  have b: "getDetailsLink e = ProductionURL \<longleftrightarrow> e = ProductionEnv"
    using urls_nonempty envs_distinct by (auto simp: getDetailsLink_def)
  have c: "getDetailsLink e = '''' \<longleftrightarrow> e \<noteq> StageEnv \<and> e \<noteq> ProductionEnv"
    using urls_nonempty by (auto simp: getDetailsLink_def)
  have d: "getDetailsLink '''' = ''''"
    by (simp add: getDetailsLink_def StageEnv_def ProductionEnv_def)
  have e: "getDetailsLink (StageEnv @ ''/'') = ''''"
    by (simp add: getDetailsLink_def StageEnv_def ProductionEnv_def)
  have f: "getDetailsLink (ProductionEnv @ ''/'') = ''''"
    by (simp add: getDetailsLink_def StageEnv_def ProductionEnv_def)
  from a b c d e f show ?thesis by blast
qed

theorem getDetailsLink_exact_witness:
  "getDetailsLink ''https://api.stage.openshift.com'' =
     ''https://qaprodauth.console.redhat.com/openshift/details/s/'' \<and>
   getDetailsLink ''https://api.openshift.com'' =
     ''https://console.redhat.com/openshift/details/s/'' \<and>
   getDetailsLink ''https://api.openshift.com/'' = ''''"
  using getDetailsLink_exact [of "''https://api.stage.openshift.com''"]
    getDetailsLink_exact [of "''https://api.openshift.com''"]
    getDetailsLink_exact [of "''https://api.openshift.com/''"]
  by (simp add: StageEnv_def ProductionEnv_def StageURL_def ProductionURL_def)

subsection \<open>The Multi-AZ resolver\<close>

lemma multiAzLoop_set:
  "multiAzLoop S nodePools = S \<union> NodePool_AvailabilityZone ` set nodePools"
  by (induction nodePools arbitrary: S) simp_all

text \<open>
  Claim C2, as stated, fails: a hosted cluster whose descriptor has no node-pool field
  of its own is reported \<^verbatim>\<open>SingleAZ\<close> although the node pools passed to
  \<open>clusterMultiAZ\<close> lie in two distinct availability zones.
\<close>

theorem clusterMultiAZ_distinct_zones_counterexample:
  "Hypershift_Enabled (Cluster_Hypershift hostedClusterNoNodePools) \<and>
   card (NodePool_AvailabilityZone `
     set [fixedNodePool ''us-east-1a'' 2, fixedNodePool ''us-east-1b'' 2]) > 1 \<and>
   clusterMultiAZ hostedClusterNoNodePools
     [fixedNodePool ''us-east-1a'' 2, fixedNodePool ''us-east-1b'' 2] =
     ''Availability:\<newline>'' @
     '' - Control Plane:           MultiAZ\<newline>'' @
     '' - Data Plane:              '' @ ''SingleAZ'' @ ''\<newline>''"
  by (simp add: clusterMultiAZ_def dataPlaneAvailability_def hostedCluster_simps fixedNodePool_def)

text \<open>
  Claim C2, amended. For every hosted cluster whose descriptor's own node-pool field is
  not \<^verbatim>\<open>nil\<close> and every list of node pools, \<open>clusterMultiAZ\<close> reports the data plane
  as \<^verbatim>\<open>MultiAZ\<close> if and only if the number of distinct availability zones of the node
  pools is greater than 1, and as \<^verbatim>\<open>SingleAZ\<close> if and only if it is at most 1; the
  control plane is reported \<^verbatim>\<open>MultiAZ\<close> in both cases.
\<close>

theorem clusterMultiAZ_hosted:
  assumes "Hypershift_Enabled (Cluster_Hypershift c)" and "Cluster_NodePools c \<noteq> None"
  shows
    "(clusterMultiAZ c nodePools =
        ''Availability:\<newline>'' @
        '' - Control Plane:           MultiAZ\<newline>'' @
        '' - Data Plane:              '' @ ''MultiAZ'' @ ''\<newline>''
      \<longleftrightarrow> card (NodePool_AvailabilityZone ` set nodePools) > 1) \<and>
     (clusterMultiAZ c nodePools =
        ''Availability:\<newline>'' @
        '' - Control Plane:           MultiAZ\<newline>'' @
        '' - Data Plane:              '' @ ''SingleAZ'' @ ''\<newline>''
      \<longleftrightarrow> card (NodePool_AvailabilityZone ` set nodePools) \<le> 1)"
  using assms
  by (auto simp add: clusterMultiAZ_def dataPlaneAvailability_def multiAzLoop_set)

theorem clusterMultiAZ_hosted_witness:
  "Hypershift_Enabled (Cluster_Hypershift hostedCluster) \<and>
   Cluster_NodePools hostedCluster \<noteq> None \<and>
   clusterMultiAZ hostedCluster
     [autoscaledNodePool ''us-east-1a'' 1 4 2, fixedNodePool ''us-east-1b'' 2] =
     ''Availability:\<newline>'' @
     '' - Control Plane:           MultiAZ\<newline>'' @
     '' - Data Plane:              '' @ ''MultiAZ'' @ ''\<newline>'' \<and>
   clusterMultiAZ hostedCluster
     [fixedNodePool ''us-east-1a'' 2, fixedNodePool ''us-east-1a'' 3] =
     ''Availability:\<newline>'' @
     '' - Control Plane:           MultiAZ\<newline>'' @
     '' - Data Plane:              '' @ ''SingleAZ'' @ ''\<newline>''"
proof -
  have h: "Hypershift_Enabled (Cluster_Hypershift hostedCluster)"
    and n: "Cluster_NodePools hostedCluster \<noteq> None"
    by (simp_all add: hostedCluster_simps)
  have two: "card (NodePool_AvailabilityZone `
      set [autoscaledNodePool ''us-east-1a'' 1 4 2, fixedNodePool ''us-east-1b'' 2]) > 1"
    by (simp add: pool_defs)
  have one: "card (NodePool_AvailabilityZone `
      set [fixedNodePool ''us-east-1a'' 2, fixedNodePool ''us-east-1a'' 3]) \<le> 1"
    by (simp add: pool_defs)
  from clusterMultiAZ_hosted [OF h n] two one h n show ?thesis
    by blast
qed

text \<open>
  Claim C10. For every hosted cluster whose descriptor's own node-pool field is
  \<^verbatim>\<open>nil\<close>, \<open>clusterMultiAZ\<close> reports the data plane as \<^verbatim>\<open>SingleAZ\<close>, whatever the
  list of node pools passed to it.
\<close>

theorem clusterMultiAZ_nil_NodePools:
  assumes "Hypershift_Enabled (Cluster_Hypershift c)" and "Cluster_NodePools c = None"
  shows
    "clusterMultiAZ c nodePools =
       ''Availability:\<newline>'' @
       '' - Control Plane:           MultiAZ\<newline>'' @
       '' - Data Plane:              '' @ ''SingleAZ'' @ ''\<newline>''"
  using assms by (simp add: clusterMultiAZ_def dataPlaneAvailability_def)

theorem clusterMultiAZ_nil_NodePools_witness:
  "Hypershift_Enabled (Cluster_Hypershift hostedClusterNoNodePools) \<and>
   Cluster_NodePools hostedClusterNoNodePools = None \<and>
   card (NodePool_AvailabilityZone `
     set [fixedNodePool ''us-east-1a'' 1, fixedNodePool ''us-east-1b'' 1,
          fixedNodePool ''us-east-1c'' 1]) = 3 \<and>
   clusterMultiAZ hostedClusterNoNodePools
     [fixedNodePool ''us-east-1a'' 1, fixedNodePool ''us-east-1b'' 1,
      fixedNodePool ''us-east-1c'' 1] =
     ''Availability:\<newline>'' @
     '' - Control Plane:           MultiAZ\<newline>'' @
     '' - Data Plane:              '' @ ''SingleAZ'' @ ''\<newline>''"
proof -
  have h: "Hypershift_Enabled (Cluster_Hypershift hostedClusterNoNodePools)"
    and n: "Cluster_NodePools hostedClusterNoNodePools = None"
    by (simp_all add: hostedCluster_simps)
  have three: "card (NodePool_AvailabilityZone `
     set [fixedNodePool ''us-east-1a'' 1, fixedNodePool ''us-east-1b'' 1,
          fixedNodePool ''us-east-1c'' 1]) = 3"
    by (simp add: pool_defs)
  from clusterMultiAZ_nil_NodePools [OF h n] three h n show ?thesis
    by blast
qed

subsection \<open>The node count aggregator: what the loops compute\<close>

lemma nodePoolsLoop_sum:
  "nodePoolsLoop (a, b, c) nodePools =
     (a + sum_list (map nodePool_min nodePools),
      b + sum_list (map nodePool_max nodePools),
      c + sum_list (map nodePool_current nodePools))"
  by (induction nodePools arbitrary: a b c)
     (simp_all add: nodePool_min_def nodePool_max_def nodePool_current_def add.assoc
        split: option.split)

lemma machinePoolsLoop_sum:
  "machinePoolsLoop (a, b) machinePools =
     (a + sum_list (map machinePool_min machinePools),
      b + sum_list (map machinePool_max machinePools))"
  by (induction machinePools arbitrary: a b)
     (simp_all add: machinePool_min_def machinePool_max_def add.assoc split: option.split)

lemma hostedNodes_sum:
  "hostedNodes nodePools =
     (sum_list (map nodePool_min nodePools), sum_list (map nodePool_max nodePools),
      sum_list (map nodePool_current nodePools))"
  by (simp add: hostedNodes_def nodePoolsLoop_sum)

lemma classicNodes_sum:
  "classicNodes c machinePools =
     (sum_list (map machinePool_min machinePools) + compute_min c,
      sum_list (map machinePool_max machinePools) + compute_max c)"
  by (simp add: classicNodes_def machinePoolsLoop_sum addCompute_def compute_min_def
      compute_max_def split: option.split)

text \<open>
  The sums above are sums of Go \<^verbatim>\<open>int\<close>s. The signed value of such a sum is the sum
  of the signed values whenever that sum lies in the range of \<^verbatim>\<open>int\<close>.
\<close>

lemma word_sum_list_of_int:
  "sum_list (ws :: 'a::len word list) = word_of_int (sum_list (map sint ws))"
  by (induction ws) simp_all

lemma sint_of_int_in_range:
  "- (2 ^ 63) \<le> k \<Longrightarrow> k < 2 ^ 63 \<Longrightarrow> sint (word_of_int k :: go_int) = k"
  by (simp add: sint_sbintrunc' signed_take_bit_int_eq_self)

lemma sint_sum_list_in_range:
  fixes ws :: "go_int list"
  assumes "- (2 ^ 63) \<le> sum_list (map sint ws)" and "sum_list (map sint ws) < 2 ^ 63"
  shows "sint (sum_list ws) = sum_list (map sint ws)"
  using assms by (subst word_sum_list_of_int) (rule sint_of_int_in_range)

lemma sum_list_mono_int:
  "(\<And>x. x \<in> set xs \<Longrightarrow> f x \<le> (g x :: int)) \<Longrightarrow> sum_list (map f xs) \<le> sum_list (map g xs)"
  by (induction xs) (simp_all add: add_mono)

lemma sint_le_of_exact:
  fixes a b :: go_int
  assumes "a = word_of_int x" and "b = word_of_int y" and "x \<le> y"
    and "- (2 ^ 63) \<le> x" and "y < 2 ^ 63"
  shows "sint a \<le> sint b"
proof -
  have "sint a = x" using assms by (simp add: sint_of_int_in_range)
  moreover have "sint b = y" using assms by (simp add: sint_of_int_in_range)
  ultimately show ?thesis using assms by simp
qed

subsection \<open>The node count aggregator of a hosted cluster\<close>

text \<open>
  Claim C3. For every hosted cluster and every list of node pools, the hosted branch of
  \<open>clusterInfraConfig\<close> computes \<open>minNodes\<close> as the sum over the pools of the autoscale
  minimum of a pool that has an autoscale configuration and of the fixed replica
  count of a pool that has none, \<open>maxNodes\<close> likewise with the autoscale maximum, and
  \<open>currentNodes\<close> as the sum of the current replica counts that the pools report, 0
  for a pool without status; the text it returns shows these three numbers. With no
  node pool all three are zero. (The sums are those of Go's \<^verbatim>\<open>int\<close>.)
\<close>

theorem clusterInfraConfig_hosted:
  assumes "Hypershift_Enabled (Cluster_Hypershift c)"
  shows
    "hostedNodes nodePools =
       (sum_list (map nodePool_min nodePools), sum_list (map nodePool_max nodePools),
        sum_list (map nodePool_current nodePools)) \<and>
     clusterInfraConfig c machinePools nodePools =
       (let minNodes = sum_list (map nodePool_min nodePools);
            maxNodes = sum_list (map nodePool_max nodePools);
            currentNodes = sum_list (map nodePool_current nodePools)
        in if minNodes \<noteq> maxNodes then
             ''Nodes:\<newline>'' @
             '' - Compute (Autoscaled):    '' @ fmt_d minNodes @ ''-'' @ fmt_d maxNodes @
             ''\<newline>'' @
             '' - Compute (current):       '' @ fmt_d currentNodes @ ''\<newline>''
           else
             ''Nodes:\<newline>'' @
             '' - Compute (desired):       '' @ fmt_d maxNodes @ ''\<newline>'' @
             '' - Compute (current):       '' @ fmt_d currentNodes @ ''\<newline>'') \<and>
     hostedNodes [] = (0, 0, 0) \<and>
     clusterInfraConfig c machinePools [] =
       ''Nodes:\<newline>'' @
       '' - Compute (desired):       0\<newline>'' @
       '' - Compute (current):       0\<newline>''"
proof -
  have "clusterInfraConfig c machinePools nodePools =
       (let minNodes = sum_list (map nodePool_min nodePools);
            maxNodes = sum_list (map nodePool_max nodePools);
            currentNodes = sum_list (map nodePool_current nodePools)
        in if minNodes \<noteq> maxNodes then
             ''Nodes:\<newline>'' @
             '' - Compute (Autoscaled):    '' @ fmt_d minNodes @ ''-'' @ fmt_d maxNodes @
             ''\<newline>'' @
             '' - Compute (current):       '' @ fmt_d currentNodes @ ''\<newline>''
           else
             ''Nodes:\<newline>'' @
             '' - Compute (desired):       '' @ fmt_d maxNodes @ ''\<newline>'' @
             '' - Compute (current):       '' @ fmt_d currentNodes @ ''\<newline>'')"
    using assms by (simp add: clusterInfraConfig_def hostedNodes_sum Let_def)
  moreover have "hostedNodes [] = (0, 0, 0)"
    by (simp add: hostedNodes_def)
  moreover have "clusterInfraConfig c machinePools [] =
       ''Nodes:\<newline>'' @
       '' - Compute (desired):       0\<newline>'' @
       '' - Compute (current):       0\<newline>''"
    using assms by (simp add: clusterInfraConfig_def hostedNodes_def fmt_defs)
  ultimately show ?thesis
    using hostedNodes_sum by blast
qed

theorem clusterInfraConfig_hosted_witness:
  "Hypershift_Enabled (Cluster_Hypershift hostedCluster) \<and>
   hostedNodes [autoscaledNodePool ''us-east-1a'' 1 4 2, fixedNodePool ''us-east-1b'' 2] =
     (3, 6, 2) \<and>
   clusterInfraConfig hostedCluster []
     [autoscaledNodePool ''us-east-1a'' 1 4 2, fixedNodePool ''us-east-1b'' 2] =
     ''Nodes:\<newline>'' @
     '' - Compute (Autoscaled):    3-6\<newline>'' @
     '' - Compute (current):       2\<newline>'' \<and>
   clusterInfraConfig hostedCluster []
     [fixedNodePool ''us-east-1a'' 2, fixedNodePool ''us-east-1a'' 3] =
     ''Nodes:\<newline>'' @
     '' - Compute (desired):       5\<newline>'' @
     '' - Compute (current):       0\<newline>''"
proof -
  have h: "Hypershift_Enabled (Cluster_Hypershift hostedCluster)"
    by (simp add: hostedCluster_simps)
  from clusterInfraConfig_hosted [OF h, of "[autoscaledNodePool ''us-east-1a'' 1 4 2, fixedNodePool ''us-east-1b'' 2]" "[]"]
  have a: "hostedNodes [autoscaledNodePool ''us-east-1a'' 1 4 2, fixedNodePool ''us-east-1b'' 2] =
     (3, 6, 2)"
   and b: "clusterInfraConfig hostedCluster []
     [autoscaledNodePool ''us-east-1a'' 1 4 2, fixedNodePool ''us-east-1b'' 2] =
     ''Nodes:\<newline>'' @
     '' - Compute (Autoscaled):    3-6\<newline>'' @
     '' - Compute (current):       2\<newline>''"
    by (simp_all add: pool_defs fmt_defs)
  from clusterInfraConfig_hosted [OF h, of "[fixedNodePool ''us-east-1a'' 2, fixedNodePool ''us-east-1a'' 3]" "[]"]
  have c: "clusterInfraConfig hostedCluster []
     [fixedNodePool ''us-east-1a'' 2, fixedNodePool ''us-east-1a'' 3] =
     ''Nodes:\<newline>'' @
     '' - Compute (desired):       5\<newline>'' @
     '' - Compute (current):       0\<newline>''"
    by (simp add: pool_defs fmt_defs)
  from h a b c show ?thesis by blast
qed

subsection \<open>The node count aggregator of a classic cluster\<close>

text \<open>
  Claim C4. For every classic cluster and every list of machine pools, the classic
  branch of \<open>clusterInfraConfig\<close> sums the contributions of the machine pools and adds
  the cluster-level compute count (the autoscale minimum and maximum if the cluster
  has an autoscale-compute configuration, else the fixed compute count, added to
  both); the master and infra counts shown are those of the cluster, and the range
  does not depend on them; with no machine pool the range is the cluster-level
  compute contribution alone. (The sums are those of Go's \<^verbatim>\<open>int\<close>.)
\<close>

theorem clusterInfraConfig_classic:
  assumes "\<not> Hypershift_Enabled (Cluster_Hypershift c)"
  shows
    "classicNodes c machinePools =
       (sum_list (map machinePool_min machinePools) + compute_min c,
        sum_list (map machinePool_max machinePools) + compute_max c) \<and>
     clusterInfraConfig c machinePools nodePools =
       (let minNodes = sum_list (map machinePool_min machinePools) + compute_min c;
            maxNodes = sum_list (map machinePool_max machinePools) + compute_max c
        in if minNodes = maxNodes then
             ''Nodes:\<newline>'' @
             '' - Control plane:           '' @ fmt_d (ClusterNodes_Master (Cluster_Nodes c)) @
             ''\<newline>'' @
             '' - Infra:                   '' @ fmt_d (ClusterNodes_Infra (Cluster_Nodes c)) @
             ''\<newline>'' @
             '' - Compute:                 '' @ fmt_d minNodes @ ''\<newline>''
           else
             ''Nodes:\<newline>'' @
             '' - Control plane:           '' @ fmt_d (ClusterNodes_Master (Cluster_Nodes c)) @
             ''\<newline>'' @
             '' - Infra:                   '' @ fmt_d (ClusterNodes_Infra (Cluster_Nodes c)) @
             ''\<newline>'' @
             '' - Compute (Autoscaled):    '' @ fmt_d minNodes @ ''-'' @ fmt_d maxNodes @
             ''\<newline>'') \<and>
     classicNodes
       (c\<lparr>Cluster_Nodes := (Cluster_Nodes c)\<lparr>ClusterNodes_Master := m, ClusterNodes_Infra := i\<rparr>\<rparr>)
       machinePools = classicNodes c machinePools \<and>
     classicNodes c [] = (compute_min c, compute_max c)"
proof -
  have "clusterInfraConfig c machinePools nodePools =
       (let minNodes = sum_list (map machinePool_min machinePools) + compute_min c;
            maxNodes = sum_list (map machinePool_max machinePools) + compute_max c
        in if minNodes = maxNodes then
             ''Nodes:\<newline>'' @
             '' - Control plane:           '' @ fmt_d (ClusterNodes_Master (Cluster_Nodes c)) @
             ''\<newline>'' @
             '' - Infra:                   '' @ fmt_d (ClusterNodes_Infra (Cluster_Nodes c)) @
             ''\<newline>'' @
             '' - Compute:                 '' @ fmt_d minNodes @ ''\<newline>''
           else
             ''Nodes:\<newline>'' @
             '' - Control plane:           '' @ fmt_d (ClusterNodes_Master (Cluster_Nodes c)) @
             ''\<newline>'' @
             '' - Infra:                   '' @ fmt_d (ClusterNodes_Infra (Cluster_Nodes c)) @
             ''\<newline>'' @
             '' - Compute (Autoscaled):    '' @ fmt_d minNodes @ ''-'' @ fmt_d maxNodes @
             ''\<newline>'')"
    using assms by (simp add: clusterInfraConfig_def classicNodes_sum Let_def)
  moreover have "classicNodes
       (c\<lparr>Cluster_Nodes := (Cluster_Nodes c)\<lparr>ClusterNodes_Master := m, ClusterNodes_Infra := i\<rparr>\<rparr>)
       machinePools = classicNodes c machinePools"
    by (simp add: classicNodes_sum compute_min_def compute_max_def split: option.split)
  moreover have "classicNodes c [] = (compute_min c, compute_max c)"
    by (simp add: classicNodes_sum)
  ultimately show ?thesis
    using classicNodes_sum by blast
qed

theorem clusterInfraConfig_classic_witness:
  "\<not> Hypershift_Enabled (Cluster_Hypershift (classicCluster 3 None)) \<and>
   clusterInfraConfig (classicCluster 3 None) [] [] =
     ''Nodes:\<newline>'' @
     '' - Control plane:           3\<newline>'' @
     '' - Infra:                   2\<newline>'' @
     '' - Compute:                 3\<newline>'' \<and>
   classicNodes
     (classicCluster 2
        (Some \<lparr>MachinePoolAutoscaling_MinReplicas = 2, MachinePoolAutoscaling_MaxReplicas = 5\<rparr>))
     [fixedMachinePool 4, autoscaledMachinePool 1 3] = (7, 12) \<and>
   clusterInfraConfig
     (classicCluster 2
        (Some \<lparr>MachinePoolAutoscaling_MinReplicas = 2, MachinePoolAutoscaling_MaxReplicas = 5\<rparr>))
     [fixedMachinePool 4, autoscaledMachinePool 1 3] [] =
     ''Nodes:\<newline>'' @
     '' - Control plane:           3\<newline>'' @
     '' - Infra:                   2\<newline>'' @
     '' - Compute (Autoscaled):    7-12\<newline>''"
proof -
  let ?c = "classicCluster 2
        (Some \<lparr>MachinePoolAutoscaling_MinReplicas = 2, MachinePoolAutoscaling_MaxReplicas = 5\<rparr>)"
  have h: "\<not> Hypershift_Enabled (Cluster_Hypershift (classicCluster n a))" for n a
    by (simp add: classicCluster_simps)
  from clusterInfraConfig_classic [OF h, of 3 None "[]" "[]"]
  have a: "clusterInfraConfig (classicCluster 3 None) [] [] =
     ''Nodes:\<newline>'' @
     '' - Control plane:           3\<newline>'' @
     '' - Infra:                   2\<newline>'' @
     '' - Compute:                 3\<newline>''"
    by (simp add: pool_defs fmt_defs classicCluster_simps)
  from clusterInfraConfig_classic [OF h, of _ _ "[fixedMachinePool 4, autoscaledMachinePool 1 3]" "[]"]
  have b: "classicNodes ?c [fixedMachinePool 4, autoscaledMachinePool 1 3] = (7, 12)"
    and c: "clusterInfraConfig ?c [fixedMachinePool 4, autoscaledMachinePool 1 3] [] =
     ''Nodes:\<newline>'' @
     '' - Control plane:           3\<newline>'' @
     '' - Infra:                   2\<newline>'' @
     '' - Compute (Autoscaled):    7-12\<newline>''"
    by (simp_all add: pool_defs fmt_defs classicCluster_simps)
  from h a b c show ?thesis by blast
qed

subsection \<open>The display policy\<close>

text \<open>
  Claim C5. In both branches of \<open>clusterInfraConfig\<close>, for the aggregated pair
  \<open>(minNodes, maxNodes)\<close>: the text is the single-value form (\<^verbatim>\<open>Compute (desired)\<close> for
  a hosted cluster, \<^verbatim>\<open>Compute\<close> for a classic one) if and only if \<open>minNodes\<close> equals
  \<open>maxNodes\<close>, and it is the range form \<^verbatim>\<open>Compute (Autoscaled): min-max\<close> if and only
  if they differ. The test is the equality of the two integers.
\<close>

theorem clusterInfraConfig_render:
  "(Hypershift_Enabled (Cluster_Hypershift c) \<and>
    hostedNodes nodePools = (minNodes, maxNodes, currentNodes) \<longrightarrow>
      clusterInfraConfig c machinePools nodePools =
        (if minNodes = maxNodes then
           ''Nodes:\<newline>'' @
           '' - Compute (desired):       '' @ fmt_d maxNodes @ ''\<newline>'' @
           '' - Compute (current):       '' @ fmt_d currentNodes @ ''\<newline>''
         else
           ''Nodes:\<newline>'' @
           '' - Compute (Autoscaled):    '' @ fmt_d minNodes @ ''-'' @ fmt_d maxNodes @
           ''\<newline>'' @
           '' - Compute (current):       '' @ fmt_d currentNodes @ ''\<newline>'') \<and>
      ((\<exists>v k. clusterInfraConfig c machinePools nodePools =
          ''Nodes:\<newline>'' @
          '' - Compute (desired):       '' @ fmt_d v @ ''\<newline>'' @
          '' - Compute (current):       '' @ fmt_d k @ ''\<newline>'')
        \<longleftrightarrow> minNodes = maxNodes) \<and>
      ((\<exists>a b k. clusterInfraConfig c machinePools nodePools =
          ''Nodes:\<newline>'' @
          '' - Compute (Autoscaled):    '' @ fmt_d a @ ''-'' @ fmt_d b @ ''\<newline>'' @
          '' - Compute (current):       '' @ fmt_d k @ ''\<newline>'')
        \<longleftrightarrow> minNodes \<noteq> maxNodes)) \<and>
   (\<not> Hypershift_Enabled (Cluster_Hypershift c) \<and>
    classicNodes c machinePools = (minNodes', maxNodes') \<longrightarrow>
      clusterInfraConfig c machinePools nodePools =
        (if minNodes' = maxNodes' then
           ''Nodes:\<newline>'' @
           '' - Control plane:           '' @ fmt_d (ClusterNodes_Master (Cluster_Nodes c)) @
           ''\<newline>'' @
           '' - Infra:                   '' @ fmt_d (ClusterNodes_Infra (Cluster_Nodes c)) @
           ''\<newline>'' @
           '' - Compute:                 '' @ fmt_d minNodes' @ ''\<newline>''
         else
           ''Nodes:\<newline>'' @
           '' - Control plane:           '' @ fmt_d (ClusterNodes_Master (Cluster_Nodes c)) @
           ''\<newline>'' @
           '' - Infra:                   '' @ fmt_d (ClusterNodes_Infra (Cluster_Nodes c)) @
           ''\<newline>'' @
           '' - Compute (Autoscaled):    '' @ fmt_d minNodes' @ ''-'' @ fmt_d maxNodes' @
           ''\<newline>'') \<and>
      ((\<exists>v. clusterInfraConfig c machinePools nodePools =
          ''Nodes:\<newline>'' @
          '' - Control plane:           '' @ fmt_d (ClusterNodes_Master (Cluster_Nodes c)) @
          ''\<newline>'' @
          '' - Infra:                   '' @ fmt_d (ClusterNodes_Infra (Cluster_Nodes c)) @
          ''\<newline>'' @
          '' - Compute:                 '' @ fmt_d v @ ''\<newline>'')
        \<longleftrightarrow> minNodes' = maxNodes') \<and>
      ((\<exists>a b. clusterInfraConfig c machinePools nodePools =
          ''Nodes:\<newline>'' @
          '' - Control plane:           '' @ fmt_d (ClusterNodes_Master (Cluster_Nodes c)) @
          ''\<newline>'' @
          '' - Infra:                   '' @ fmt_d (ClusterNodes_Infra (Cluster_Nodes c)) @
          ''\<newline>'' @
          '' - Compute (Autoscaled):    '' @ fmt_d a @ ''-'' @ fmt_d b @ ''\<newline>'')
        \<longleftrightarrow> minNodes' \<noteq> maxNodes'))"
proof (intro conjI impI; elim conjE)
  assume h: "Hypershift_Enabled (Cluster_Hypershift c)"
    and n: "hostedNodes nodePools = (minNodes, maxNodes, currentNodes)"
  show "clusterInfraConfig c machinePools nodePools =
        (if minNodes = maxNodes then
           ''Nodes:\<newline>'' @
           '' - Compute (desired):       '' @ fmt_d maxNodes @ ''\<newline>'' @
           '' - Compute (current):       '' @ fmt_d currentNodes @ ''\<newline>''
         else
           ''Nodes:\<newline>'' @
           '' - Compute (Autoscaled):    '' @ fmt_d minNodes @ ''-'' @ fmt_d maxNodes @
           ''\<newline>'' @
           '' - Compute (current):       '' @ fmt_d currentNodes @ ''\<newline>'')"
    using h n by (simp add: clusterInfraConfig_def)
  show "(\<exists>v k. clusterInfraConfig c machinePools nodePools =
          ''Nodes:\<newline>'' @
          '' - Compute (desired):       '' @ fmt_d v @ ''\<newline>'' @
          '' - Compute (current):       '' @ fmt_d k @ ''\<newline>'')
        \<longleftrightarrow> minNodes = maxNodes"
    using h n by (auto simp add: clusterInfraConfig_def)
  show "(\<exists>a b k. clusterInfraConfig c machinePools nodePools =
          ''Nodes:\<newline>'' @
          '' - Compute (Autoscaled):    '' @ fmt_d a @ ''-'' @ fmt_d b @ ''\<newline>'' @
          '' - Compute (current):       '' @ fmt_d k @ ''\<newline>'')
        \<longleftrightarrow> minNodes \<noteq> maxNodes"
    using h n by (auto simp add: clusterInfraConfig_def)
next
  assume h: "\<not> Hypershift_Enabled (Cluster_Hypershift c)"
    and n: "classicNodes c machinePools = (minNodes', maxNodes')"
  show "clusterInfraConfig c machinePools nodePools =
        (if minNodes' = maxNodes' then
           ''Nodes:\<newline>'' @
           '' - Control plane:           '' @ fmt_d (ClusterNodes_Master (Cluster_Nodes c)) @
           ''\<newline>'' @
           '' - Infra:                   '' @ fmt_d (ClusterNodes_Infra (Cluster_Nodes c)) @
           ''\<newline>'' @
           '' - Compute:                 '' @ fmt_d minNodes' @ ''\<newline>''
         else
           ''Nodes:\<newline>'' @
           '' - Control plane:           '' @ fmt_d (ClusterNodes_Master (Cluster_Nodes c)) @
           ''\<newline>'' @
           '' - Infra:                   '' @ fmt_d (ClusterNodes_Infra (Cluster_Nodes c)) @
           ''\<newline>'' @
           '' - Compute (Autoscaled):    '' @ fmt_d minNodes' @ ''-'' @ fmt_d maxNodes' @
           ''\<newline>'')"
    using h n by (simp add: clusterInfraConfig_def)
  show "(\<exists>v. clusterInfraConfig c machinePools nodePools =
          ''Nodes:\<newline>'' @
          '' - Control plane:           '' @ fmt_d (ClusterNodes_Master (Cluster_Nodes c)) @
          ''\<newline>'' @
          '' - Infra:                   '' @ fmt_d (ClusterNodes_Infra (Cluster_Nodes c)) @
          ''\<newline>'' @
          '' - Compute:                 '' @ fmt_d v @ ''\<newline>'')
        \<longleftrightarrow> minNodes' = maxNodes'"
    using h n by (auto simp add: clusterInfraConfig_def)
  show "(\<exists>a b. clusterInfraConfig c machinePools nodePools =
          ''Nodes:\<newline>'' @
          '' - Control plane:           '' @ fmt_d (ClusterNodes_Master (Cluster_Nodes c)) @
          ''\<newline>'' @
          '' - Infra:                   '' @ fmt_d (ClusterNodes_Infra (Cluster_Nodes c)) @
          ''\<newline>'' @
          '' - Compute (Autoscaled):    '' @ fmt_d a @ ''-'' @ fmt_d b @ ''\<newline>'')
        \<longleftrightarrow> minNodes' \<noteq> maxNodes'"
    using h n by (auto simp add: clusterInfraConfig_def)
qed

theorem clusterInfraConfig_render_witness:
  "Hypershift_Enabled (Cluster_Hypershift hostedCluster) \<and>
   hostedNodes [fixedNodePool ''us-east-1a'' 2, fixedNodePool ''us-east-1a'' 3] = (5, 5, 0) \<and>
   clusterInfraConfig hostedCluster []
     [fixedNodePool ''us-east-1a'' 2, fixedNodePool ''us-east-1a'' 3] =
     ''Nodes:\<newline>'' @
     '' - Compute (desired):       5\<newline>'' @
     '' - Compute (current):       0\<newline>'' \<and>
   hostedNodes [autoscaledNodePool ''us-east-1a'' 1 4 2, fixedNodePool ''us-east-1b'' 2] =
     (3, 6, 2) \<and>
   clusterInfraConfig hostedCluster []
     [autoscaledNodePool ''us-east-1a'' 1 4 2, fixedNodePool ''us-east-1b'' 2] =
     ''Nodes:\<newline>'' @
     '' - Compute (Autoscaled):    3-6\<newline>'' @
     '' - Compute (current):       2\<newline>'' \<and>
   \<not> Hypershift_Enabled (Cluster_Hypershift (classicCluster 3 None)) \<and>
   classicNodes (classicCluster 3 None) [] = (3, 3) \<and>
   clusterInfraConfig (classicCluster 3 None) [] [] =
     ''Nodes:\<newline>'' @
     '' - Control plane:           3\<newline>'' @
     '' - Infra:                   2\<newline>'' @
     '' - Compute:                 3\<newline>'' \<and>
   classicNodes (classicCluster 3 None) [autoscaledMachinePool 1 3] = (4, 6) \<and>
   clusterInfraConfig (classicCluster 3 None) [autoscaledMachinePool 1 3] [] =
     ''Nodes:\<newline>'' @
     '' - Control plane:           3\<newline>'' @
     '' - Infra:                   2\<newline>'' @
     '' - Compute (Autoscaled):    4-6\<newline>''"
proof -
  have h: "Hypershift_Enabled (Cluster_Hypershift hostedCluster)"
    by (simp add: hostedCluster_simps)
  have k: "\<not> Hypershift_Enabled (Cluster_Hypershift (classicCluster 3 None))"
    by (simp add: classicCluster_simps)
  have n1: "hostedNodes [fixedNodePool ''us-east-1a'' 2, fixedNodePool ''us-east-1a'' 3] = (5, 5, 0)"
    by (simp add: hostedNodes_def pool_defs)
  have n2: "hostedNodes [autoscaledNodePool ''us-east-1a'' 1 4 2, fixedNodePool ''us-east-1b'' 2] =
     (3, 6, 2)"
    by (simp add: hostedNodes_def pool_defs)
  have n3: "classicNodes (classicCluster 3 None) [] = (3, 3)"
    by (simp add: classicNodes_def addCompute_def classicCluster_simps)
  have n4: "classicNodes (classicCluster 3 None) [autoscaledMachinePool 1 3] = (4, 6)"
    by (simp add: classicNodes_def addCompute_def classicCluster_simps pool_defs)
  have a: "clusterInfraConfig hostedCluster []
     [fixedNodePool ''us-east-1a'' 2, fixedNodePool ''us-east-1a'' 3] =
     ''Nodes:\<newline>'' @
     '' - Compute (desired):       5\<newline>'' @
     '' - Compute (current):       0\<newline>''"
    using clusterInfraConfig_render [of hostedCluster _ 5 5 0 "[]" 0 0] h n1
    by (simp add: fmt_defs)
  have b: "clusterInfraConfig hostedCluster []
     [autoscaledNodePool ''us-east-1a'' 1 4 2, fixedNodePool ''us-east-1b'' 2] =
     ''Nodes:\<newline>'' @
     '' - Compute (Autoscaled):    3-6\<newline>'' @
     '' - Compute (current):       2\<newline>''"
    using clusterInfraConfig_render [of hostedCluster _ 3 6 2 "[]" 0 0] h n2
    by (simp add: fmt_defs)
  have c: "clusterInfraConfig (classicCluster 3 None) [] [] =
     ''Nodes:\<newline>'' @
     '' - Control plane:           3\<newline>'' @
     '' - Infra:                   2\<newline>'' @
     '' - Compute:                 3\<newline>''"
    using clusterInfraConfig_render [of "classicCluster 3 None" "[]" 0 0 0 "[]" 3 3] k n3
    by (simp add: fmt_defs classicCluster_simps)
  have d: "clusterInfraConfig (classicCluster 3 None) [autoscaledMachinePool 1 3] [] =
     ''Nodes:\<newline>'' @
     '' - Control plane:           3\<newline>'' @
     '' - Infra:                   2\<newline>'' @
     '' - Compute (Autoscaled):    4-6\<newline>''"
    using clusterInfraConfig_render [of "classicCluster 3 None" "[]" 0 0 0 "[autoscaledMachinePool 1 3]" 4 6] k n4
    by (simp add: fmt_defs classicCluster_simps)
  from h k n1 n2 n3 n4 a b c d show ?thesis by blast
qed

subsection \<open>The order of the aggregated minimum and maximum\<close>

text \<open>
  Claim C6, as stated, fails. Two node pools of a hosted cluster, each with an
  autoscale configuration whose minimum is at most its maximum: the maxima are
  9223372036854775807 and 1, their sum in Go's \<^verbatim>\<open>int\<close> wraps around to
  -9223372036854775808, and the aggregated minimum 0 is greater than the aggregated
  maximum. The text shows the range \<^verbatim>\<open>0--9223372036854775808\<close>.
\<close>

theorem min_le_max_counterexample:
  "sint (nodePool_min (autoscaledNodePool ''us-east-1a'' 0 9223372036854775807 0)) \<le>
     sint (nodePool_max (autoscaledNodePool ''us-east-1a'' 0 9223372036854775807 0)) \<and>
   sint (nodePool_min (autoscaledNodePool ''us-east-1b'' 0 1 0)) \<le>
     sint (nodePool_max (autoscaledNodePool ''us-east-1b'' 0 1 0)) \<and>
   hostedNodes
     [autoscaledNodePool ''us-east-1a'' 0 9223372036854775807 0,
      autoscaledNodePool ''us-east-1b'' 0 1 0] = (0, 9223372036854775808, 0) \<and>
   sint (9223372036854775808 :: go_int) < sint (0 :: go_int) \<and>
   clusterInfraConfig hostedCluster []
     [autoscaledNodePool ''us-east-1a'' 0 9223372036854775807 0,
      autoscaledNodePool ''us-east-1b'' 0 1 0] =
     ''Nodes:\<newline>'' @
     '' - Compute (Autoscaled):    0--9223372036854775808\<newline>'' @
     '' - Compute (current):       0\<newline>''"
  by (simp add: clusterInfraConfig_def hostedNodes_def hostedCluster_simps pool_defs fmt_defs)

text \<open>
  Claim C6, amended. For every list of pools in which every pool that has an autoscale
  configuration satisfies min \<open>\<le>\<close> max (and, for a classic cluster, the cluster-level
  autoscale-compute configuration, when present, satisfies min \<open>\<le>\<close> max), and for
  which the exact sum of the minimum contributions is at least \<open>-2\<^sup>6\<^sup>3\<close> and the exact
  sum of the maximum contributions is less than \<open>2\<^sup>6\<^sup>3\<close> (the sums do not leave the
  range of Go's \<^verbatim>\<open>int\<close>), the aggregated result satisfies \<open>minNodes \<le> maxNodes\<close>; and if
  no pool has an autoscale configuration (and, for a classic cluster, the cluster has
  no autoscale-compute configuration), then \<open>minNodes\<close> equals \<open>maxNodes\<close>, whatever the
  sums.
\<close>

theorem min_le_max:
  "(hostedNodes nodePools = (minNodes, maxNodes, currentNodes) \<and>
    (\<forall>p \<in> set nodePools. \<forall>a. NodePool_Autoscaling p = Some a \<longrightarrow>
        sint (NodePoolAutoscaling_MinReplica a) \<le> sint (NodePoolAutoscaling_MaxReplica a)) \<and>
    - (2 ^ 63) \<le> (\<Sum>p\<leftarrow>nodePools. sint (nodePool_min p)) \<and>
    (\<Sum>p\<leftarrow>nodePools. sint (nodePool_max p)) < 2 ^ 63
    \<longrightarrow> sint minNodes \<le> sint maxNodes) \<and>
   (hostedNodes nodePools = (minNodes, maxNodes, currentNodes) \<and>
    (\<forall>p \<in> set nodePools. NodePool_Autoscaling p = None)
    \<longrightarrow> minNodes = maxNodes) \<and>
   (classicNodes c machinePools = (minNodes', maxNodes') \<and>
    (\<forall>p \<in> set machinePools. \<forall>a. MachinePool_Autoscaling p = Some a \<longrightarrow>
        sint (MachinePoolAutoscaling_MinReplicas a) \<le> sint (MachinePoolAutoscaling_MaxReplicas a)) \<and>
    (\<forall>a. ClusterNodes_AutoscaleCompute (Cluster_Nodes c) = Some a \<longrightarrow>
        sint (MachinePoolAutoscaling_MinReplicas a) \<le> sint (MachinePoolAutoscaling_MaxReplicas a)) \<and>
    - (2 ^ 63) \<le> (\<Sum>p\<leftarrow>machinePools. sint (machinePool_min p)) + sint (compute_min c) \<and>
    (\<Sum>p\<leftarrow>machinePools. sint (machinePool_max p)) + sint (compute_max c) < 2 ^ 63
    \<longrightarrow> sint minNodes' \<le> sint maxNodes') \<and>
   (classicNodes c machinePools = (minNodes', maxNodes') \<and>
    (\<forall>p \<in> set machinePools. MachinePool_Autoscaling p = None) \<and>
    ClusterNodes_AutoscaleCompute (Cluster_Nodes c) = None
    \<longrightarrow> minNodes' = maxNodes')"
proof (intro conjI impI; elim conjE)
  assume n: "hostedNodes nodePools = (minNodes, maxNodes, currentNodes)"
    and le: "\<forall>p \<in> set nodePools. \<forall>a. NodePool_Autoscaling p = Some a \<longrightarrow>
        sint (NodePoolAutoscaling_MinReplica a) \<le> sint (NodePoolAutoscaling_MaxReplica a)"
    and lo: "- (2 ^ 63) \<le> (\<Sum>p\<leftarrow>nodePools. sint (nodePool_min p))"
    and hi: "(\<Sum>p\<leftarrow>nodePools. sint (nodePool_max p)) < 2 ^ 63"
  have pw: "sint (nodePool_min p) \<le> sint (nodePool_max p)" if "p \<in> set nodePools" for p
    using le that
    by (cases "NodePool_Autoscaling p") (simp_all add: nodePool_min_def nodePool_max_def)
  have mono: "(\<Sum>p\<leftarrow>nodePools. sint (nodePool_min p)) \<le> (\<Sum>p\<leftarrow>nodePools. sint (nodePool_max p))"
    by (rule sum_list_mono_int) (rule pw)
  have a: "minNodes = word_of_int (\<Sum>p\<leftarrow>nodePools. sint (nodePool_min p))"
    using n
    by (simp add: hostedNodes_sum word_sum_list_of_int [of "map nodePool_min nodePools"] comp_def)
  have b: "maxNodes = word_of_int (\<Sum>p\<leftarrow>nodePools. sint (nodePool_max p))"
    using n
    by (simp add: hostedNodes_sum word_sum_list_of_int [of "map nodePool_max nodePools"] comp_def)
  show "sint minNodes \<le> sint maxNodes"
    by (rule sint_le_of_exact [OF a b mono lo hi])
next
  assume n: "hostedNodes nodePools = (minNodes, maxNodes, currentNodes)"
    and none: "\<forall>p \<in> set nodePools. NodePool_Autoscaling p = None"
  have "map nodePool_min nodePools = map nodePool_max nodePools"
    using none by (simp add: nodePool_min_def nodePool_max_def)
  then have e: "sum_list (map nodePool_min nodePools) = sum_list (map nodePool_max nodePools)"
    by (rule arg_cong)
  have "minNodes = sum_list (map nodePool_min nodePools)"
    and "maxNodes = sum_list (map nodePool_max nodePools)"
    using n by (simp_all add: hostedNodes_sum)
  with e show "minNodes = maxNodes"
    by (simp only:)
next
  assume n: "classicNodes c machinePools = (minNodes', maxNodes')"
    and le: "\<forall>p \<in> set machinePools. \<forall>a. MachinePool_Autoscaling p = Some a \<longrightarrow>
        sint (MachinePoolAutoscaling_MinReplicas a) \<le> sint (MachinePoolAutoscaling_MaxReplicas a)"
    and cle: "\<forall>a. ClusterNodes_AutoscaleCompute (Cluster_Nodes c) = Some a \<longrightarrow>
        sint (MachinePoolAutoscaling_MinReplicas a) \<le> sint (MachinePoolAutoscaling_MaxReplicas a)"
    and lo: "- (2 ^ 63) \<le> (\<Sum>p\<leftarrow>machinePools. sint (machinePool_min p)) + sint (compute_min c)"
    and hi: "(\<Sum>p\<leftarrow>machinePools. sint (machinePool_max p)) + sint (compute_max c) < 2 ^ 63"
  have pw: "sint (machinePool_min p) \<le> sint (machinePool_max p)" if "p \<in> set machinePools" for p
    using le that
    by (cases "MachinePool_Autoscaling p") (simp_all add: machinePool_min_def machinePool_max_def)
  have cpw: "sint (compute_min c) \<le> sint (compute_max c)"
    using cle
    by (cases "ClusterNodes_AutoscaleCompute (Cluster_Nodes c)")
       (simp_all add: compute_min_def compute_max_def)
  have mono: "(\<Sum>p\<leftarrow>machinePools. sint (machinePool_min p)) + sint (compute_min c)
      \<le> (\<Sum>p\<leftarrow>machinePools. sint (machinePool_max p)) + sint (compute_max c)"
    by (rule add_mono [OF sum_list_mono_int cpw]) (rule pw)
  have a: "minNodes' =
      word_of_int ((\<Sum>p\<leftarrow>machinePools. sint (machinePool_min p)) + sint (compute_min c))"
    using n
    by (simp add: classicNodes_sum word_sum_list_of_int [of "map machinePool_min machinePools"]
        comp_def)
  have b: "maxNodes' =
      word_of_int ((\<Sum>p\<leftarrow>machinePools. sint (machinePool_max p)) + sint (compute_max c))"
    using n
    by (simp add: classicNodes_sum word_sum_list_of_int [of "map machinePool_max machinePools"]
        comp_def)
  show "sint minNodes' \<le> sint maxNodes'"
    by (rule sint_le_of_exact [OF a b mono lo hi])
next
  assume n: "classicNodes c machinePools = (minNodes', maxNodes')"
    and none: "\<forall>p \<in> set machinePools. MachinePool_Autoscaling p = None"
    and cnone: "ClusterNodes_AutoscaleCompute (Cluster_Nodes c) = None"
  have "map machinePool_min machinePools = map machinePool_max machinePools"
    using none by (simp add: machinePool_min_def machinePool_max_def)
  then have e: "sum_list (map machinePool_min machinePools) =
      sum_list (map machinePool_max machinePools)"
    by (rule arg_cong)
  have e': "compute_min c = compute_max c"
    using cnone by (simp add: compute_min_def compute_max_def)
  have "minNodes' = sum_list (map machinePool_min machinePools) + compute_min c"
    and "maxNodes' = sum_list (map machinePool_max machinePools) + compute_max c"
    using n by (simp_all add: classicNodes_sum)
  with e e' show "minNodes' = maxNodes'"
    by (simp only:)
qed

theorem min_le_max_witness:
  "hostedNodes [autoscaledNodePool ''us-east-1a'' 1 4 2, fixedNodePool ''us-east-1b'' 2] =
     (3, 6, 2) \<and>
   sint (3 :: go_int) \<le> sint (6 :: go_int) \<and>
   hostedNodes [fixedNodePool ''us-east-1a'' 2, fixedNodePool ''us-east-1a'' 3] = (5, 5, 0) \<and>
   classicNodes
     (classicCluster 2
        (Some \<lparr>MachinePoolAutoscaling_MinReplicas = 2, MachinePoolAutoscaling_MaxReplicas = 5\<rparr>))
     [fixedMachinePool 4, autoscaledMachinePool 1 3] = (7, 12) \<and>
   sint (7 :: go_int) \<le> sint (12 :: go_int) \<and>
   classicNodes (classicCluster 3 None) [fixedMachinePool 4] = (7, 7)"
proof -
  let ?ps = "[autoscaledNodePool ''us-east-1a'' 1 4 2, fixedNodePool ''us-east-1b'' 2]"
  let ?qs = "[fixedNodePool ''us-east-1a'' 2, fixedNodePool ''us-east-1a'' 3]"
  let ?c = "classicCluster 2
        (Some \<lparr>MachinePoolAutoscaling_MinReplicas = 2, MachinePoolAutoscaling_MaxReplicas = 5\<rparr>)"
  let ?ms = "[fixedMachinePool 4, autoscaledMachinePool 1 3]"
  have h1: "hostedNodes ?ps = (3, 6, 2)"
    by (simp add: hostedNodes_def pool_defs)
  have h2: "\<forall>p \<in> set ?ps. \<forall>a. NodePool_Autoscaling p = Some a \<longrightarrow>
        sint (NodePoolAutoscaling_MinReplica a) \<le> sint (NodePoolAutoscaling_MaxReplica a)"
    by (simp add: pool_defs)
  have h3: "- (2 ^ 63) \<le> (\<Sum>p\<leftarrow>?ps. sint (nodePool_min p))"
    and h4: "(\<Sum>p\<leftarrow>?ps. sint (nodePool_max p)) < 2 ^ 63"
    by (simp_all add: pool_defs)
  have h5: "hostedNodes ?qs = (5, 5, 0)"
    by (simp add: hostedNodes_def pool_defs)
  have h6: "\<forall>p \<in> set ?qs. NodePool_Autoscaling p = None"
    by (simp add: pool_defs)
  have k1: "classicNodes ?c ?ms = (7, 12)"
    by (simp add: classicNodes_def addCompute_def classicCluster_simps pool_defs)
  have k2: "\<forall>p \<in> set ?ms. \<forall>a. MachinePool_Autoscaling p = Some a \<longrightarrow>
        sint (MachinePoolAutoscaling_MinReplicas a) \<le> sint (MachinePoolAutoscaling_MaxReplicas a)"
    by (simp add: pool_defs)
  have k3: "\<forall>a. ClusterNodes_AutoscaleCompute (Cluster_Nodes ?c) = Some a \<longrightarrow>
        sint (MachinePoolAutoscaling_MinReplicas a) \<le> sint (MachinePoolAutoscaling_MaxReplicas a)"
    by (auto simp add: classicCluster_simps)
  have k4: "- (2 ^ 63) \<le> (\<Sum>p\<leftarrow>?ms. sint (machinePool_min p)) + sint (compute_min ?c)"
    and k5: "(\<Sum>p\<leftarrow>?ms. sint (machinePool_max p)) + sint (compute_max ?c) < 2 ^ 63"
    by (simp_all add: pool_defs classicCluster_simps)
  have k6: "classicNodes (classicCluster 3 None) [fixedMachinePool 4] = (7, 7)"
    by (simp add: classicNodes_def addCompute_def classicCluster_simps pool_defs)
  have k7: "\<forall>p \<in> set [fixedMachinePool 4]. MachinePool_Autoscaling p = None"
    by (simp add: pool_defs)
  have k8: "ClusterNodes_AutoscaleCompute (Cluster_Nodes (classicCluster 3 None)) = None"
    by (simp add: classicCluster_simps)
  have a: "sint (3 :: go_int) \<le> sint (6 :: go_int)"
    using min_le_max [of ?ps 3 6 2 ?c ?ms 7 12] h1 h2 h3 h4 by blast
  have b: "sint (7 :: go_int) \<le> sint (12 :: go_int)"
    using min_le_max [of ?ps 3 6 2 ?c ?ms 7 12] k1 k2 k3 k4 k5 by blast
  have c: "(5 :: go_int) = 5 \<and> (7 :: go_int) = 7"
    using min_le_max [of ?qs 5 5 0 "classicCluster 3 None" "[fixedMachinePool 4]" 7 7]
      h5 h6 k6 k7 k8 by blast
  from h1 a h5 k1 b k6 c show ?thesis by blast
qed

subsection \<open>The limited-support section\<close>

lemma reasonsLoop_concat:
  "reasonsLoop str reasons =
     str @ concat (map (\<lambda>reason.
       '' - Summary:                 '' @ LimitedSupportReason_Summary reason @ ''\<newline>'' @
       '' - Details:                 '' @ LimitedSupportReason_Details reason @ ''\<newline>'') reasons)"
  by (induction reasons arbitrary: str) simp_all

lemma add_LimitedSupport_eq:
  "add_LimitedSupport reasons str =
     str @ (if reasons \<noteq> [] then ''Limited Support:\<newline>'' else '''') @
     concat (map (\<lambda>reason.
       '' - Summary:                 '' @ LimitedSupportReason_Summary reason @ ''\<newline>'' @
       '' - Details:                 '' @ LimitedSupportReason_Details reason @ ''\<newline>'') reasons) @
     ''\<newline>''"
  by (simp add: add_LimitedSupport_def reasonsLoop_concat)

lemma run_text_classic_success:
  assumes "\<not> Hypershift_Enabled (Cluster_Hypershift c)"
    and "OCMClient_GetScheduledUpgrade env (Cluster_ID c) = Inr (scheduledUpgrade, upgradeState)"
    and "\<not> output_HasFlag env"
    and "arn_Parse env (map_index (Cluster_Properties c) (properties_CreatorARN env)) = Inr creatorARN"
    and "OCMClient_GetMachinePools env (Cluster_ID c) = Inr machinePools"
    and "OCMClient_GetLimitedSupportReasons env (Cluster_ID c) = Inr reasons"
  shows "run env clusterKey c =
     \<lparr>Calls = [(Call_GetScheduledUpgrade, None), (Call_GetMachinePools, None),
               (Call_GetLimitedSupportReasons, None)],
      Stdout = add_LimitedSupport reasons
        (report env c creatorARN machinePools [] scheduledUpgrade upgradeState None),
      Errorf = [], Exit = None\<rparr>"
  using assms by (simp add: run_def run_text_def)

lemma run_text_hosted_success:
  assumes "Hypershift_Enabled (Cluster_Hypershift c)"
    and "OCMClient_GetControlPlaneScheduledUpgrade env (Cluster_ID c) = Inr controlPlaneScheduledUpgrade"
    and "\<not> output_HasFlag env"
    and "arn_Parse env (map_index (Cluster_Properties c) (properties_CreatorARN env)) = Inr creatorARN"
    and "OCMClient_GetNodePools env (Cluster_ID c) = Inr nodePools"
    and "OCMClient_GetLimitedSupportReasons env (Cluster_ID c) = Inr reasons"
  shows "run env clusterKey c =
     \<lparr>Calls = [(Call_GetControlPlaneScheduledUpgrade, None), (Call_GetNodePools, None),
               (Call_GetLimitedSupportReasons, None)],
      Stdout = add_LimitedSupport reasons
        (report env c creatorARN [] nodePools None None controlPlaneScheduledUpgrade),
      Errorf = [], Exit = None\<rparr>"
  using assms by (simp add: run_def run_text_def)

text \<open>
  A line ends at the first line feed: two texts that agree are split alike there.
\<close>

lemma split_at_newline:
  assumes "CHR ''\<newline>'' \<notin> set a" and "CHR ''\<newline>'' \<notin> set b"
    and "a @ CHR ''\<newline>'' # x = b @ CHR ''\<newline>'' # y"
  shows "a = b \<and> x = y"
  using assms
proof (induction a arbitrary: b)
  case Nil
  then show ?case by (cases b) auto
next
  case (Cons h a)
  then show ?case by (cases b) auto
qed

text \<open>The pairs of two lists of reasons without line feeds agree only if the lists do.\<close>

lemma pairs_inject:
  fixes rs rs' :: "limitedSupportReason list"
  assumes "\<forall>r \<in> set rs. CHR ''\<newline>'' \<notin> set (LimitedSupportReason_Summary r) \<and>
                     CHR ''\<newline>'' \<notin> set (LimitedSupportReason_Details r)"
    and "\<forall>r \<in> set rs'. CHR ''\<newline>'' \<notin> set (LimitedSupportReason_Summary r) \<and>
                     CHR ''\<newline>'' \<notin> set (LimitedSupportReason_Details r)"
    and "concat (map (\<lambda>reason.
       '' - Summary:                 '' @ LimitedSupportReason_Summary reason @ ''\<newline>'' @
       '' - Details:                 '' @ LimitedSupportReason_Details reason @ ''\<newline>'') rs) @
       ''\<newline>'' =
     concat (map (\<lambda>reason.
       '' - Summary:                 '' @ LimitedSupportReason_Summary reason @ ''\<newline>'' @
       '' - Details:                 '' @ LimitedSupportReason_Details reason @ ''\<newline>'') rs') @
       ''\<newline>''"
  shows "rs = rs'"
  using assms
proof (induction rs arbitrary: rs')
  case Nil
  then show ?case by (cases rs') auto
next
  case (Cons r rs)
  show ?case
  proof (cases rs')
    case Nil
    with Cons.prems show ?thesis by auto
  next
    case (Cons r' rs1)
    from Cons.prems(1) have r: "CHR ''\<newline>'' \<notin> set (LimitedSupportReason_Summary r)"
      "CHR ''\<newline>'' \<notin> set (LimitedSupportReason_Details r)" by auto
    from Cons.prems(2) Cons have r': "CHR ''\<newline>'' \<notin> set (LimitedSupportReason_Summary r')"
      "CHR ''\<newline>'' \<notin> set (LimitedSupportReason_Details r')" by auto
    let ?tail = "\<lambda>xs. concat (map (\<lambda>reason.
       '' - Summary:                 '' @ LimitedSupportReason_Summary reason @ ''\<newline>'' @
       '' - Details:                 '' @ LimitedSupportReason_Details reason @ ''\<newline>'') xs) @
       ''\<newline>''"
    from Cons.prems(3) Cons
    have "LimitedSupportReason_Summary r @ CHR ''\<newline>'' #
            ('' - Details:                 '' @ LimitedSupportReason_Details r @
             CHR ''\<newline>'' # ?tail rs) =
          LimitedSupportReason_Summary r' @ CHR ''\<newline>'' #
            ('' - Details:                 '' @ LimitedSupportReason_Details r' @
             CHR ''\<newline>'' # ?tail rs1)"
      by simp
    from split_at_newline [OF r(1) r'(1) this]
    have s: "LimitedSupportReason_Summary r = LimitedSupportReason_Summary r'"
      and "LimitedSupportReason_Details r @ CHR ''\<newline>'' # ?tail rs =
           LimitedSupportReason_Details r' @ CHR ''\<newline>'' # ?tail rs1"
      by simp_all
    from split_at_newline [OF r(2) r'(2) this(2)]
    have d: "LimitedSupportReason_Details r = LimitedSupportReason_Details r'"
      and t: "?tail rs = ?tail rs1"
      by simp_all
    from Cons.prems(1,2) Cons have "rs = rs1"
      by (intro Cons.IH [OF _ _ t]) auto
    moreover from s d have "r = r'" by (cases r, cases r') simp
    ultimately show ?thesis using Cons by simp
  qed
qed

text \<open>
  Claim C7. For every list of limited-support reasons, what lines 371 to 380 add to the
  report is the header line \<^verbatim>\<open>Limited Support:\<close> if and only if the list is not empty,
  followed by exactly one summary/detail pair for each reason, in the order of the
  list, and the final line feed. The section determines the list of the reasons, their
  number and their order, when no summary and no detail contains a line feed. The text
  that a run in text mode prints ends with that section.
\<close>

theorem limitedSupport_section:
  "add_LimitedSupport reasons str =
     str @ (if reasons \<noteq> [] then ''Limited Support:\<newline>'' else '''') @
     concat (map (\<lambda>reason.
       '' - Summary:                 '' @ LimitedSupportReason_Summary reason @ ''\<newline>'' @
       '' - Details:                 '' @ LimitedSupportReason_Details reason @ ''\<newline>'') reasons) @
     ''\<newline>'' \<and>
   ((\<exists>rest. add_LimitedSupport reasons str = str @ ''Limited Support:\<newline>'' @ rest)
      \<longleftrightarrow> reasons \<noteq> []) \<and>
   ((\<forall>r \<in> set reasons \<union> set reasons'.
        CHR ''\<newline>'' \<notin> set (LimitedSupportReason_Summary r) \<and>
        CHR ''\<newline>'' \<notin> set (LimitedSupportReason_Details r)) \<and>
    add_LimitedSupport reasons str = add_LimitedSupport reasons' str \<longrightarrow>
      reasons = reasons') \<and>
   (\<not> output_HasFlag env \<and> Exit (run env clusterKey c) = None \<and>
    OCMClient_GetLimitedSupportReasons env (Cluster_ID c) = Inr reasons \<longrightarrow>
      (\<exists>str. Stdout (run env clusterKey c) = add_LimitedSupport reasons str))"
proof (intro conjI impI)
  show "add_LimitedSupport reasons str =
     str @ (if reasons \<noteq> [] then ''Limited Support:\<newline>'' else '''') @
     concat (map (\<lambda>reason.
       '' - Summary:                 '' @ LimitedSupportReason_Summary reason @ ''\<newline>'' @
       '' - Details:                 '' @ LimitedSupportReason_Details reason @ ''\<newline>'') reasons) @
     ''\<newline>''"
    by (rule add_LimitedSupport_eq)
  show "(\<exists>rest. add_LimitedSupport reasons str = str @ ''Limited Support:\<newline>'' @ rest)
      \<longleftrightarrow> reasons \<noteq> []"
    by (auto simp add: add_LimitedSupport_eq)
next
  assume a: "(\<forall>r \<in> set reasons \<union> set reasons'.
        CHR ''\<newline>'' \<notin> set (LimitedSupportReason_Summary r) \<and>
        CHR ''\<newline>'' \<notin> set (LimitedSupportReason_Details r)) \<and>
    add_LimitedSupport reasons str = add_LimitedSupport reasons' str"
  then have n: "\<forall>r \<in> set reasons. CHR ''\<newline>'' \<notin> set (LimitedSupportReason_Summary r) \<and>
                     CHR ''\<newline>'' \<notin> set (LimitedSupportReason_Details r)"
    and n': "\<forall>r \<in> set reasons'. CHR ''\<newline>'' \<notin> set (LimitedSupportReason_Summary r) \<and>
                     CHR ''\<newline>'' \<notin> set (LimitedSupportReason_Details r)"
    by auto
  from a have e: "add_LimitedSupport reasons str = add_LimitedSupport reasons' str"
    by simp
  show "reasons = reasons'"
  proof (cases "reasons = []")
    case True
    with e show ?thesis
      by (cases reasons') (auto simp add: add_LimitedSupport_eq)
  next
    case False
    with e have "reasons' \<noteq> []"
      by (cases reasons) (auto simp add: add_LimitedSupport_eq)
    with False e show ?thesis
      by (intro pairs_inject [OF n n']) (simp add: add_LimitedSupport_eq)
  qed
next
  assume a: "\<not> output_HasFlag env \<and> Exit (run env clusterKey c) = None \<and>
    OCMClient_GetLimitedSupportReasons env (Cluster_ID c) = Inr reasons"
  then show "\<exists>str. Stdout (run env clusterKey c) = add_LimitedSupport reasons str"
    by (auto simp add: run_def run_text_def exit1_def Let_def
        split: sum.splits prod.splits if_splits)
qed

theorem limitedSupport_section_witness:
  "add_LimitedSupport twoReasons ''X'' =
     ''X'' @
     ''Limited Support:\<newline>'' @
     '' - Summary:                 S1\<newline>'' @
     '' - Details:                 D1\<newline>'' @
     '' - Summary:                 S2\<newline>'' @
     '' - Details:                 D2\<newline>'' @
     ''\<newline>'' \<and>
   add_LimitedSupport [] ''X'' = ''X'' @ ''\<newline>'' \<and>
   \<not> output_HasFlag reasonsEnv \<and>
   Exit (run reasonsEnv ''mycluster'' emptyCluster) = None \<and>
   OCMClient_GetLimitedSupportReasons reasonsEnv (Cluster_ID emptyCluster) = Inr twoReasons \<and>
   Stdout (run reasonsEnv ''mycluster'' emptyCluster) =
     report reasonsEnv emptyCluster \<lparr>ARN_AccountID = ''123456789012''\<rparr> [] [] None None None @
     ''Limited Support:\<newline>'' @
     '' - Summary:                 S1\<newline>'' @
     '' - Details:                 D1\<newline>'' @
     '' - Summary:                 S2\<newline>'' @
     '' - Details:                 D2\<newline>'' @
     ''\<newline>''"
proof -
  note t = limitedSupport_section [of twoReasons _ twoReasons reasonsEnv "''mycluster''" emptyCluster]
  have r: "run reasonsEnv ''mycluster'' emptyCluster =
     \<lparr>Calls = [(Call_GetScheduledUpgrade, None), (Call_GetMachinePools, None),
               (Call_GetLimitedSupportReasons, None)],
      Stdout = add_LimitedSupport twoReasons
        (report reasonsEnv emptyCluster \<lparr>ARN_AccountID = ''123456789012''\<rparr> [] [] None None None),
      Errorf = [], Exit = None\<rparr>"
    by (rule run_text_classic_success) (simp_all add: reasonsEnv_def okEnv_def emptyCluster_def)
  have h1: "\<not> output_HasFlag reasonsEnv"
    and h2: "OCMClient_GetLimitedSupportReasons reasonsEnv (Cluster_ID emptyCluster) = Inr twoReasons"
    by (simp_all add: reasonsEnv_def okEnv_def)
  have h3: "Exit (run reasonsEnv ''mycluster'' emptyCluster) = None"
    by (simp add: r)
  have h4: "\<forall>r \<in> set twoReasons \<union> set twoReasons.
        CHR ''\<newline>'' \<notin> set (LimitedSupportReason_Summary r) \<and>
        CHR ''\<newline>'' \<notin> set (LimitedSupportReason_Details r)"
    by (simp add: twoReasons_def)
  from t h4 have inj: "twoReasons = twoReasons"
    by blast
  from t h1 h2 h3 have "\<exists>str. Stdout (run reasonsEnv ''mycluster'' emptyCluster) =
      add_LimitedSupport twoReasons str"
    by blast
  have a: "add_LimitedSupport twoReasons str =
     str @
     ''Limited Support:\<newline>'' @
     '' - Summary:                 S1\<newline>'' @
     '' - Details:                 D1\<newline>'' @
     '' - Summary:                 S2\<newline>'' @
     '' - Details:                 D2\<newline>'' @
     ''\<newline>''" for str
    using limitedSupport_section [of twoReasons str twoReasons reasonsEnv "''mycluster''" emptyCluster]
    by (simp add: twoReasons_def)
  have b: "add_LimitedSupport [] ''X'' = ''X'' @ ''\<newline>''"
    using limitedSupport_section [of "[]" "''X''" "[]" reasonsEnv "''mycluster''" emptyCluster]
    by simp
  from a b h1 h2 h3 r inj show ?thesis
    by simp
qed

subsection \<open>Errors of the collaborators\<close>

lemma Calls_run_output: "Calls (run_output env calls f) = calls"
  by (simp add: run_output_def exit1_def split: sum.split prod.split option.split)

lemma run_text_error:
  assumes ok: "\<forall>x \<in> set calls. snd x = None"
    and bad: "(call, Some err) \<in> set (Calls (run_text env clusterKey c calls su st cp))"
  shows
    "(call = (if Hypershift_Enabled (Cluster_Hypershift c) then Call_GetNodePools
              else Call_GetMachinePools) \<and>
      run_text env clusterKey c calls su st cp =
        exit1 (calls @ [(call, Some err)])
          (''Failed to get machine pools for cluster '' @ [CHR 0x27] @ clusterKey @ [CHR 0x27] @
           '': '' @ err)) \<or>
     (call = Call_GetLimitedSupportReasons \<and>
      run_text env clusterKey c calls su st cp =
        exit1 (calls @
                 [(if Hypershift_Enabled (Cluster_Hypershift c) then Call_GetNodePools
                   else Call_GetMachinePools, None), (call, Some err)])
          (''Failed to get limited support reasons for cluster '' @ [CHR 0x27] @ Cluster_ID c @
           [CHR 0x27] @ '': '' @ err))"
proof -
  from ok have no: "(call, Some err) \<notin> set calls"
    by force
  show ?thesis
  proof (cases "arn_Parse env (map_index (Cluster_Properties c) (properties_CreatorARN env))")
    case (Inl e)
    with bad no show ?thesis
      by (simp add: run_text_def exit1_def)
  next
    case arn: (Inr creatorARN)
    show ?thesis
    proof (cases "Hypershift_Enabled (Cluster_Hypershift c)")
      case True
      show ?thesis
      proof (cases "OCMClient_GetNodePools env (Cluster_ID c)")
        case (Inl e)
        with bad no arn True show ?thesis
          by (simp add: run_text_def exit1_def)
      next
        case pools: (Inr nodePools)
        show ?thesis
        proof (cases "OCMClient_GetLimitedSupportReasons env (Cluster_ID c)")
          case (Inl e)
          with bad no arn True pools show ?thesis
            by (simp add: run_text_def exit1_def)
        next
          case (Inr reasons)
          with bad no arn True pools show ?thesis
            by (simp add: run_text_def exit1_def)
        qed
      qed
    next
      case False
      show ?thesis
      proof (cases "OCMClient_GetMachinePools env (Cluster_ID c)")
        case (Inl e)
        with bad no arn False show ?thesis
          by (simp add: run_text_def exit1_def)
      next
        case pools: (Inr machinePools)
        show ?thesis
        proof (cases "OCMClient_GetLimitedSupportReasons env (Cluster_ID c)")
          case (Inl e)
          with bad no arn False pools show ?thesis
            by (simp add: run_text_def exit1_def)
        next
          case (Inr reasons)
          with bad no arn False pools show ?thesis
            by (simp add: run_text_def exit1_def)
        qed
      qed
    qed
  qed
qed

lemma exit1_outcome:
  "Stdout (exit1 (calls @ [(call, Some err)]) msg) = '''' \<and>
   Exit (exit1 (calls @ [(call, Some err)]) msg) = Some 1 \<and>
   length (Errorf (exit1 (calls @ [(call, Some err)]) msg)) = 1 \<and>
   Errorf (exit1 (calls @ [(call, Some err)]) msg) = [msg] \<and>
   last (Calls (exit1 (calls @ [(call, Some err)]) msg)) = (call, Some err)"
  by (simp add: exit1_def)

text \<open>
  Claim C9. For every run in which a call to the OCM client (fetching the scheduled
  upgrade, the machine or node pools, the limited-support reasons) returns an error,
  the command reports a single error message, the one of the call that failed, and
  exits with status 1; that call is the last one it makes, and nothing has been
  written to standard output.
\<close>

theorem run_collaborator_error:
  assumes "(call, Some err) \<in> set (Calls (run env clusterKey c))"
  shows
    "Stdout (run env clusterKey c) = '''' \<and>
     Exit (run env clusterKey c) = Some 1 \<and>
     length (Errorf (run env clusterKey c)) = 1 \<and>
     Errorf (run env clusterKey c) =
       [case call of
          Call_GetScheduledUpgrade \<Rightarrow>
            ''Failed to get scheduled upgrades for cluster '' @ [CHR 0x27] @ clusterKey @
            [CHR 0x27] @ '': '' @ err
        | Call_GetControlPlaneScheduledUpgrade \<Rightarrow>
            ''Failed to get scheduled upgrades for cluster '' @ [CHR 0x27] @ clusterKey @
            [CHR 0x27] @ '': '' @ err
        | Call_GetNodePools \<Rightarrow>
            ''Failed to get machine pools for cluster '' @ [CHR 0x27] @ clusterKey @ [CHR 0x27] @
            '': '' @ err
        | Call_GetMachinePools \<Rightarrow>
            ''Failed to get machine pools for cluster '' @ [CHR 0x27] @ clusterKey @ [CHR 0x27] @
            '': '' @ err
        | Call_GetLimitedSupportReasons \<Rightarrow>
            ''Failed to get limited support reasons for cluster '' @ [CHR 0x27] @ Cluster_ID c @
            [CHR 0x27] @ '': '' @ err] \<and>
     last (Calls (run env clusterKey c)) = (call, Some err)"
proof (cases "Hypershift_Enabled (Cluster_Hypershift c)")
  case hosted: True
  show ?thesis
  proof (cases "OCMClient_GetControlPlaneScheduledUpgrade env (Cluster_ID c)")
    case (Inl e)
    with hosted have r: "run env clusterKey c =
        exit1 ([] @ [(Call_GetControlPlaneScheduledUpgrade, Some e)])
          (''Failed to get scheduled upgrades for cluster '' @ [CHR 0x27] @ clusterKey @
           [CHR 0x27] @ '': '' @ e)"
      by (simp add: run_def)
    with assms have "call = Call_GetControlPlaneScheduledUpgrade" and "err = e"
      by (simp_all add: exit1_def)
    with r exit1_outcome [of "[]" Call_GetControlPlaneScheduledUpgrade e] show ?thesis
      by simp
  next
    case up: (Inr cp)
    show ?thesis
    proof (cases "output_HasFlag env")
      case True
      with hosted up assms show ?thesis
        by (simp add: run_def Calls_run_output)
    next
      case False
      with hosted up have r: "run env clusterKey c =
          run_text env clusterKey c [(Call_GetControlPlaneScheduledUpgrade, None)] None None cp"
        by (simp add: run_def)
      from run_text_error [of "[(Call_GetControlPlaneScheduledUpgrade, None)]" call err env
          clusterKey c None None cp] assms r hosted
      show ?thesis
        by (auto simp add: exit1_def)
    qed
  qed
next
  case classic: False
  show ?thesis
  proof (cases "OCMClient_GetScheduledUpgrade env (Cluster_ID c)")
    case (Inl e)
    with classic have r: "run env clusterKey c =
        exit1 ([] @ [(Call_GetScheduledUpgrade, Some e)])
          (''Failed to get scheduled upgrades for cluster '' @ [CHR 0x27] @ clusterKey @
           [CHR 0x27] @ '': '' @ e)"
      by (simp add: run_def)
    with assms have "call = Call_GetScheduledUpgrade" and "err = e"
      by (simp_all add: exit1_def)
    with r exit1_outcome [of "[]" Call_GetScheduledUpgrade e] show ?thesis
      by simp
  next
    case up: (Inr p)
    obtain su st where p: "p = (su, st)"
      by (cases p)
    show ?thesis
    proof (cases "output_HasFlag env")
      case True
      with classic up p assms show ?thesis
        by (simp add: run_def Calls_run_output)
    next
      case False
      with classic up p have r: "run env clusterKey c =
          run_text env clusterKey c [(Call_GetScheduledUpgrade, None)] su st None"
        by (simp add: run_def)
      from run_text_error [of "[(Call_GetScheduledUpgrade, None)]" call err env
          clusterKey c su st None] assms r classic
      show ?thesis
        by (auto simp add: exit1_def)
    qed
  qed
qed

theorem run_collaborator_error_witness:
  "(Call_GetScheduledUpgrade, Some ''connection refused'') \<in>
     set (Calls (run upgradeFailsEnv ''mycluster'' emptyCluster)) \<and>
   run upgradeFailsEnv ''mycluster'' emptyCluster =
     \<lparr>Calls = [(Call_GetScheduledUpgrade, Some ''connection refused'')],
      Stdout = '''',
      Errorf = [''Failed to get scheduled upgrades for cluster '' @ [CHR 0x27] @ ''mycluster'' @
                [CHR 0x27] @ '': '' @ ''connection refused''],
      Exit = Some 1\<rparr> \<and>
   (Call_GetNodePools, Some ''connection refused'') \<in>
     set (Calls (run poolsFailEnv ''mycluster'' hostedCluster)) \<and>
   run poolsFailEnv ''mycluster'' hostedCluster =
     \<lparr>Calls = [(Call_GetControlPlaneScheduledUpgrade, None),
               (Call_GetNodePools, Some ''connection refused'')],
      Stdout = '''',
      Errorf = [''Failed to get machine pools for cluster '' @ [CHR 0x27] @ ''mycluster'' @
                [CHR 0x27] @ '': '' @ ''connection refused''],
      Exit = Some 1\<rparr> \<and>
   (Call_GetLimitedSupportReasons, Some ''connection refused'') \<in>
     set (Calls (run reasonsFailEnv ''mycluster'' (emptyCluster\<lparr>Cluster_ID := ''1a2b''\<rparr>))) \<and>
   run reasonsFailEnv ''mycluster'' (emptyCluster\<lparr>Cluster_ID := ''1a2b''\<rparr>) =
     \<lparr>Calls = [(Call_GetScheduledUpgrade, None), (Call_GetMachinePools, None),
               (Call_GetLimitedSupportReasons, Some ''connection refused'')],
      Stdout = '''',
      Errorf = [''Failed to get limited support reasons for cluster '' @ [CHR 0x27] @ ''1a2b'' @
                [CHR 0x27] @ '': '' @ ''connection refused''],
      Exit = Some 1\<rparr>"
proof -
  have c1: "Calls (run upgradeFailsEnv ''mycluster'' emptyCluster) =
      [(Call_GetScheduledUpgrade, Some ''connection refused'')]"
    by (simp add: run_def exit1_def upgradeFailsEnv_def okEnv_def emptyCluster_def)
  have c2: "Calls (run poolsFailEnv ''mycluster'' hostedCluster) =
      [(Call_GetControlPlaneScheduledUpgrade, None),
       (Call_GetNodePools, Some ''connection refused'')]"
    by (simp add: run_def run_text_def exit1_def poolsFailEnv_def okEnv_def hostedCluster_def
        emptyCluster_def)
  have c3: "Calls (run reasonsFailEnv ''mycluster'' (emptyCluster\<lparr>Cluster_ID := ''1a2b''\<rparr>)) =
      [(Call_GetScheduledUpgrade, None), (Call_GetMachinePools, None),
       (Call_GetLimitedSupportReasons, Some ''connection refused'')]"
    by (simp add: run_def run_text_def exit1_def reasonsFailEnv_def okEnv_def emptyCluster_def)
  have m1: "(Call_GetScheduledUpgrade, Some ''connection refused'') \<in>
     set (Calls (run upgradeFailsEnv ''mycluster'' emptyCluster))"
    by (simp add: c1)
  have m2: "(Call_GetNodePools, Some ''connection refused'') \<in>
     set (Calls (run poolsFailEnv ''mycluster'' hostedCluster))"
    by (simp add: c2)
  have m3: "(Call_GetLimitedSupportReasons, Some ''connection refused'') \<in>
     set (Calls (run reasonsFailEnv ''mycluster'' (emptyCluster\<lparr>Cluster_ID := ''1a2b''\<rparr>)))"
    by (simp add: c3)
  have r1: "run upgradeFailsEnv ''mycluster'' emptyCluster =
     \<lparr>Calls = [(Call_GetScheduledUpgrade, Some ''connection refused'')],
      Stdout = '''',
      Errorf = [''Failed to get scheduled upgrades for cluster '' @ [CHR 0x27] @ ''mycluster'' @
                [CHR 0x27] @ '': '' @ ''connection refused''],
      Exit = Some 1\<rparr>"
    using run_collaborator_error [OF m1] c1
    by (cases "run upgradeFailsEnv ''mycluster'' emptyCluster") simp
  have r2: "run poolsFailEnv ''mycluster'' hostedCluster =
     \<lparr>Calls = [(Call_GetControlPlaneScheduledUpgrade, None),
               (Call_GetNodePools, Some ''connection refused'')],
      Stdout = '''',
      Errorf = [''Failed to get machine pools for cluster '' @ [CHR 0x27] @ ''mycluster'' @
                [CHR 0x27] @ '': '' @ ''connection refused''],
      Exit = Some 1\<rparr>"
    using run_collaborator_error [OF m2] c2
    by (cases "run poolsFailEnv ''mycluster'' hostedCluster") simp
  have r3: "run reasonsFailEnv ''mycluster'' (emptyCluster\<lparr>Cluster_ID := ''1a2b''\<rparr>) =
     \<lparr>Calls = [(Call_GetScheduledUpgrade, None), (Call_GetMachinePools, None),
               (Call_GetLimitedSupportReasons, Some ''connection refused'')],
      Stdout = '''',
      Errorf = [''Failed to get limited support reasons for cluster '' @ [CHR 0x27] @ ''1a2b'' @
                [CHR 0x27] @ '': '' @ ''connection refused''],
      Exit = Some 1\<rparr>"
    using run_collaborator_error [OF m3] c3
    by (cases "run reasonsFailEnv ''mycluster'' (emptyCluster\<lparr>Cluster_ID := ''1a2b''\<rparr>)") simp
  from m1 m2 m3 r1 r2 r3 show ?thesis
    by blast
qed

subsection \<open>The scheduled-upgrade summary\<close>

lemma replicate_small:
  "replicate 1 x = [x]" "replicate 2 x = [x, x]" "replicate 3 x = [x, x, x]"
  by (simp_all add: numeral_2_eq_2 numeral_3_eq_3)

lemmas time_defs =
  Format_upgrade_def Format_created_def appendInt_def zero_pad_def space_pad2_def
  decimal.simps digit_char_def replicate_small

lemma Format_upgrade_zeroTime: "Format_upgrade zeroTime = ''0001-01-01 00:00 UTC''"
  by (simp add: zeroTime_def time_defs)

lemma Format_upgrade_example: "Format_upgrade nextRunExample = ''2023-03-07 09:05 UTC''"
  by (simp add: nextRunExample_def time_defs)

lemma Format_created_example: "Format_created nextRunExample = ''Mar  7 2023 09:05:00 UTC''"
  by (simp add: nextRunExample_def time_defs)

text \<open>
  Claim C1, as stated, fails: a scheduled upgrade with a state and a version and with no
  next-run time is rendered, in structured mode and in text mode, for a classic and for
  a hosted cluster; the next-run time shown is the zero time.
\<close>

theorem scheduledUpgrade_counterexample:
  "upgradePolicy_nextRun policyNoNextRun = None \<and>
   entry (scheduledUpgradeEntry
            (formatCluster okEnv emptyCluster (Some policyNoNextRun) (Some stateScheduled)))
     ''nextRun'' = Some (VString ''0001-01-01 00:00 UTC'') \<and>
   add_ScheduledUpgrade False (Some policyNoNextRun) (Some stateScheduled) None '''' =
     ''Scheduled Upgrade:          scheduled 4.12.1 on 0001-01-01 00:00 UTC\<newline>'' \<and>
   controlPlaneUpgradePolicy_nextRun controlPlanePolicyNoNextRun = None \<and>
   entry (scheduledUpgradeEntry
            (formatClusterHypershift okEnv hostedCluster (Some controlPlanePolicyNoNextRun)))
     ''nextRun'' = Some (VString ''0001-01-01 00:00 UTC'') \<and>
   add_ScheduledUpgrade True None None (Some controlPlanePolicyNoNextRun) '''' =
     ''Scheduled Upgrade:          scheduled 4.12.1 on 0001-01-01 00:00 UTC\<newline>''"
  by (simp add: formatCluster_def formatClusterHypershift_def add_ScheduledUpgrade_def
      entry_def scheduledUpgradeEntry_def okEnv_def policyNoNextRun_def stateScheduled_def
      controlPlanePolicyNoNextRun_def UpgradePolicy_Version_def UpgradePolicy_NextRun_def
      UpgradePolicyState_Value_def ControlPlaneUpgradePolicy_State_def
      ControlPlaneUpgradePolicy_Version_def ControlPlaneUpgradePolicy_NextRun_def
      ControlPlaneUpgradePolicyState_Value_def Format_upgrade_zeroTime)

lemmas upgrade_getters =
  UpgradePolicy_Version_def UpgradePolicy_NextRun_def UpgradePolicyState_Value_def
  ControlPlaneUpgradePolicy_State_def ControlPlaneUpgradePolicy_Version_def
  ControlPlaneUpgradePolicy_NextRun_def ControlPlaneUpgradePolicyState_Value_def

lemma formatCluster_eq:
  assumes "cmv1_MarshalCluster env c = Inr b" and "json_Unmarshal env b = Inr ret"
  shows "formatCluster env c scheduledUpgrade upgradeState =
      Inr (if UpgradePolicyState_Value upgradeState \<noteq> '''' \<and>
              UpgradePolicy_Version scheduledUpgrade \<noteq> ''''
           then ret(''scheduledUpgrade'' \<mapsto> VMap
                  [''version'' \<mapsto> VString (UpgradePolicy_Version scheduledUpgrade),
                   ''state'' \<mapsto> VString (UpgradePolicyState_Value upgradeState),
                   ''nextRun'' \<mapsto>
                     VString (Format_upgrade (UpgradePolicy_NextRun scheduledUpgrade))])
           else ret)"
  using assms
  by (cases scheduledUpgrade; cases upgradeState)
     (simp_all add: formatCluster_def UpgradePolicy_Version_def UpgradePolicyState_Value_def)

lemma formatClusterHypershift_eq:
  assumes "cmv1_MarshalCluster env c = Inr b" and "json_Unmarshal env b = Inr ret"
  shows "formatClusterHypershift env c scheduledUpgrade =
      Inr (if ControlPlaneUpgradePolicyState_Value
                (ControlPlaneUpgradePolicy_State scheduledUpgrade) \<noteq> '''' \<and>
              ControlPlaneUpgradePolicy_Version scheduledUpgrade \<noteq> ''''
           then ret(''scheduledUpgrade'' \<mapsto> VMap
                  [''version'' \<mapsto> VString (ControlPlaneUpgradePolicy_Version scheduledUpgrade),
                   ''state'' \<mapsto>
                     VString (ControlPlaneUpgradePolicyState_Value
                                (ControlPlaneUpgradePolicy_State scheduledUpgrade)),
                   ''nextRun'' \<mapsto>
                     VString (Format_upgrade
                                (ControlPlaneUpgradePolicy_NextRun scheduledUpgrade))])
           else ret)"
proof (cases scheduledUpgrade)
  case None
  with assms show ?thesis
    by (simp add: formatClusterHypershift_def ControlPlaneUpgradePolicy_Version_def)
next
  case (Some p)
  with assms show ?thesis
    by (cases "controlPlaneUpgradePolicy_state p")
       (simp_all add: formatClusterHypershift_def ControlPlaneUpgradePolicy_Version_def
          ControlPlaneUpgradePolicy_State_def ControlPlaneUpgradePolicyState_Value_def)
qed

text \<open>
  Claim C1, amended. In structured mode (\<open>formatCluster\<close> for a classic cluster,
  \<open>formatClusterHypershift\<close> for a hosted one, the serialized cluster having no entry
  \<^verbatim>\<open>scheduledUpgrade\<close> of its own), the scheduled-upgrade summary is rendered if and only
  if the state and the version are both non-empty (a \<^verbatim>\<open>nil\<close> schedule has an empty
  version, a \<^verbatim>\<open>nil\<close> state an empty value); when one of the two is missing nothing of
  the summary is rendered. In text mode the line is rendered when the state and the
  version are non-empty, and it is not rendered when there is no schedule. A next-run
  time is not required in either mode: the summary shows the next-run time of the
  schedule, which is the zero time when none is set.
\<close>

theorem scheduledUpgrade_summary:
  "(cmv1_MarshalCluster env c = Inr b \<and> json_Unmarshal env b = Inr ret \<and>
    ret ''scheduledUpgrade'' = None \<longrightarrow>
      formatCluster env c scheduledUpgrade upgradeState =
        Inr (if UpgradePolicyState_Value upgradeState \<noteq> '''' \<and>
                UpgradePolicy_Version scheduledUpgrade \<noteq> ''''
             then ret(''scheduledUpgrade'' \<mapsto> VMap
                    [''version'' \<mapsto> VString (UpgradePolicy_Version scheduledUpgrade),
                     ''state'' \<mapsto> VString (UpgradePolicyState_Value upgradeState),
                     ''nextRun'' \<mapsto>
                       VString (Format_upgrade (UpgradePolicy_NextRun scheduledUpgrade))])
             else ret) \<and>
      (scheduledUpgradeEntry (formatCluster env c scheduledUpgrade upgradeState) \<noteq> None
         \<longleftrightarrow> UpgradePolicyState_Value upgradeState \<noteq> '''' \<and>
             UpgradePolicy_Version scheduledUpgrade \<noteq> '''') \<and>
      formatClusterHypershift env c controlPlaneScheduledUpgrade =
        Inr (if ControlPlaneUpgradePolicyState_Value
                  (ControlPlaneUpgradePolicy_State controlPlaneScheduledUpgrade) \<noteq> '''' \<and>
                ControlPlaneUpgradePolicy_Version controlPlaneScheduledUpgrade \<noteq> ''''
             then ret(''scheduledUpgrade'' \<mapsto> VMap
                    [''version'' \<mapsto>
                       VString (ControlPlaneUpgradePolicy_Version controlPlaneScheduledUpgrade),
                     ''state'' \<mapsto>
                       VString (ControlPlaneUpgradePolicyState_Value
                                  (ControlPlaneUpgradePolicy_State controlPlaneScheduledUpgrade)),
                     ''nextRun'' \<mapsto>
                       VString (Format_upgrade
                                  (ControlPlaneUpgradePolicy_NextRun
                                     controlPlaneScheduledUpgrade))])
             else ret) \<and>
      (scheduledUpgradeEntry (formatClusterHypershift env c controlPlaneScheduledUpgrade) \<noteq> None
         \<longleftrightarrow> ControlPlaneUpgradePolicyState_Value
               (ControlPlaneUpgradePolicy_State controlPlaneScheduledUpgrade) \<noteq> '''' \<and>
             ControlPlaneUpgradePolicy_Version controlPlaneScheduledUpgrade \<noteq> '''')) \<and>
   (UpgradePolicyState_Value upgradeState \<noteq> '''' \<and>
    UpgradePolicy_Version scheduledUpgrade \<noteq> '''' \<longrightarrow>
      add_ScheduledUpgrade False scheduledUpgrade upgradeState controlPlaneScheduledUpgrade str =
        str @ ''Scheduled Upgrade:          '' @ UpgradePolicyState_Value upgradeState @ '' '' @
        UpgradePolicy_Version scheduledUpgrade @ '' on '' @
        Format_upgrade (UpgradePolicy_NextRun scheduledUpgrade) @ ''\<newline>'') \<and>
   (scheduledUpgrade = None \<longrightarrow>
      add_ScheduledUpgrade False scheduledUpgrade upgradeState controlPlaneScheduledUpgrade str =
        str) \<and>
   (ControlPlaneUpgradePolicyState_Value
      (ControlPlaneUpgradePolicy_State controlPlaneScheduledUpgrade) \<noteq> '''' \<and>
    ControlPlaneUpgradePolicy_Version controlPlaneScheduledUpgrade \<noteq> '''' \<longrightarrow>
      add_ScheduledUpgrade True scheduledUpgrade upgradeState controlPlaneScheduledUpgrade str =
        str @ ''Scheduled Upgrade:          '' @
        ControlPlaneUpgradePolicyState_Value (ControlPlaneUpgradePolicy_State controlPlaneScheduledUpgrade) @
        '' '' @ ControlPlaneUpgradePolicy_Version controlPlaneScheduledUpgrade @ '' on '' @
        Format_upgrade (ControlPlaneUpgradePolicy_NextRun controlPlaneScheduledUpgrade) @
        ''\<newline>'') \<and>
   (controlPlaneScheduledUpgrade = None \<longrightarrow>
      add_ScheduledUpgrade True scheduledUpgrade upgradeState controlPlaneScheduledUpgrade str =
        str)"
proof (intro conjI impI; (elim conjE)?)
  assume m: "cmv1_MarshalCluster env c = Inr b" and u: "json_Unmarshal env b = Inr ret"
    and n: "ret ''scheduledUpgrade'' = None"
  show "formatCluster env c scheduledUpgrade upgradeState =
        Inr (if UpgradePolicyState_Value upgradeState \<noteq> '''' \<and>
                UpgradePolicy_Version scheduledUpgrade \<noteq> ''''
             then ret(''scheduledUpgrade'' \<mapsto> VMap
                    [''version'' \<mapsto> VString (UpgradePolicy_Version scheduledUpgrade),
                     ''state'' \<mapsto> VString (UpgradePolicyState_Value upgradeState),
                     ''nextRun'' \<mapsto>
                       VString (Format_upgrade (UpgradePolicy_NextRun scheduledUpgrade))])
             else ret)"
    by (rule formatCluster_eq [OF m u])
  show "scheduledUpgradeEntry (formatCluster env c scheduledUpgrade upgradeState) \<noteq> None
         \<longleftrightarrow> UpgradePolicyState_Value upgradeState \<noteq> '''' \<and>
             UpgradePolicy_Version scheduledUpgrade \<noteq> ''''"
    using n by (simp add: formatCluster_eq [OF m u] scheduledUpgradeEntry_def)
  show "formatClusterHypershift env c controlPlaneScheduledUpgrade =
        Inr (if ControlPlaneUpgradePolicyState_Value
                  (ControlPlaneUpgradePolicy_State controlPlaneScheduledUpgrade) \<noteq> '''' \<and>
                ControlPlaneUpgradePolicy_Version controlPlaneScheduledUpgrade \<noteq> ''''
             then ret(''scheduledUpgrade'' \<mapsto> VMap
                    [''version'' \<mapsto>
                       VString (ControlPlaneUpgradePolicy_Version controlPlaneScheduledUpgrade),
                     ''state'' \<mapsto>
                       VString (ControlPlaneUpgradePolicyState_Value
                                  (ControlPlaneUpgradePolicy_State controlPlaneScheduledUpgrade)),
                     ''nextRun'' \<mapsto>
                       VString (Format_upgrade
                                  (ControlPlaneUpgradePolicy_NextRun
                                     controlPlaneScheduledUpgrade))])
             else ret)"
    by (rule formatClusterHypershift_eq [OF m u])
  show "scheduledUpgradeEntry (formatClusterHypershift env c controlPlaneScheduledUpgrade) \<noteq> None
         \<longleftrightarrow> ControlPlaneUpgradePolicyState_Value
               (ControlPlaneUpgradePolicy_State controlPlaneScheduledUpgrade) \<noteq> '''' \<and>
             ControlPlaneUpgradePolicy_Version controlPlaneScheduledUpgrade \<noteq> ''''"
    using n by (simp add: formatClusterHypershift_eq [OF m u] scheduledUpgradeEntry_def)
next
  assume "UpgradePolicyState_Value upgradeState \<noteq> ''''"
    and "UpgradePolicy_Version scheduledUpgrade \<noteq> ''''"
  then show "add_ScheduledUpgrade False scheduledUpgrade upgradeState controlPlaneScheduledUpgrade str =
        str @ ''Scheduled Upgrade:          '' @ UpgradePolicyState_Value upgradeState @ '' '' @
        UpgradePolicy_Version scheduledUpgrade @ '' on '' @
        Format_upgrade (UpgradePolicy_NextRun scheduledUpgrade) @ ''\<newline>''"
    by (cases scheduledUpgrade) (simp_all add: add_ScheduledUpgrade_def UpgradePolicy_Version_def)
next
  assume "scheduledUpgrade = None"
  then show "add_ScheduledUpgrade False scheduledUpgrade upgradeState controlPlaneScheduledUpgrade str =
        str"
    by (simp add: add_ScheduledUpgrade_def)
next
  assume "ControlPlaneUpgradePolicyState_Value
      (ControlPlaneUpgradePolicy_State controlPlaneScheduledUpgrade) \<noteq> ''''"
    and "ControlPlaneUpgradePolicy_Version controlPlaneScheduledUpgrade \<noteq> ''''"
  then show "add_ScheduledUpgrade True scheduledUpgrade upgradeState controlPlaneScheduledUpgrade str =
        str @ ''Scheduled Upgrade:          '' @
        ControlPlaneUpgradePolicyState_Value (ControlPlaneUpgradePolicy_State controlPlaneScheduledUpgrade) @
        '' '' @ ControlPlaneUpgradePolicy_Version controlPlaneScheduledUpgrade @ '' on '' @
        Format_upgrade (ControlPlaneUpgradePolicy_NextRun controlPlaneScheduledUpgrade) @
        ''\<newline>''"
    by (cases controlPlaneScheduledUpgrade)
       (simp_all add: add_ScheduledUpgrade_def ControlPlaneUpgradePolicy_Version_def)
next
  assume "controlPlaneScheduledUpgrade = None"
  then show "add_ScheduledUpgrade True scheduledUpgrade upgradeState controlPlaneScheduledUpgrade str =
        str"
    by (simp add: add_ScheduledUpgrade_def)
qed

theorem scheduledUpgrade_summary_witness:
  "entry (scheduledUpgradeEntry
            (formatCluster okEnv emptyCluster (Some policyComplete) (Some stateScheduled)))
     ''version'' = Some (VString ''4.12.1'') \<and>
   entry (scheduledUpgradeEntry
            (formatCluster okEnv emptyCluster (Some policyComplete) (Some stateScheduled)))
     ''state'' = Some (VString ''scheduled'') \<and>
   entry (scheduledUpgradeEntry
            (formatCluster okEnv emptyCluster (Some policyComplete) (Some stateScheduled)))
     ''nextRun'' = Some (VString ''2023-03-07 09:05 UTC'') \<and>
   scheduledUpgradeEntry (formatCluster okEnv emptyCluster (Some policyComplete) None) = None \<and>
   scheduledUpgradeEntry
     (formatCluster okEnv emptyCluster
        (Some (policyComplete\<lparr>upgradePolicy_version := ''''\<rparr>)) (Some stateScheduled)) = None \<and>
   entry (scheduledUpgradeEntry
            (formatClusterHypershift okEnv hostedCluster (Some controlPlanePolicyComplete)))
     ''nextRun'' = Some (VString ''2023-03-07 09:05 UTC'') \<and>
   scheduledUpgradeEntry
     (formatClusterHypershift okEnv hostedCluster
        (Some (controlPlanePolicyComplete\<lparr>controlPlaneUpgradePolicy_state := None\<rparr>))) = None \<and>
   add_ScheduledUpgrade False (Some policyComplete) (Some stateScheduled) None ''X'' =
     ''X'' @ ''Scheduled Upgrade:          scheduled 4.12.1 on 2023-03-07 09:05 UTC\<newline>'' \<and>
   add_ScheduledUpgrade False None None None ''X'' = ''X'' \<and>
   add_ScheduledUpgrade True None None (Some controlPlanePolicyComplete) ''X'' =
     ''X'' @ ''Scheduled Upgrade:          scheduled 4.12.1 on 2023-03-07 09:05 UTC\<newline>'' \<and>
   add_ScheduledUpgrade True None None None ''X'' = ''X''"
proof -
  have m: "cmv1_MarshalCluster okEnv c = Inr ''{}''" for c
    by (simp add: okEnv_def)
  have u: "json_Unmarshal okEnv ''{}'' = Inr Map.empty"
    by (simp add: okEnv_def)
  have n: "(Map.empty :: string \<rightharpoonup> value) ''scheduledUpgrade'' = None"
    by simp
  note ex = policyComplete_def stateScheduled_def controlPlanePolicyComplete_def
    upgrade_getters Format_upgrade_example entry_def scheduledUpgradeEntry_def
  note t1 = scheduledUpgrade_summary [of okEnv emptyCluster "''{}''" Map.empty
      "Some policyComplete" "Some stateScheduled" "Some controlPlanePolicyComplete" "''X''"]
  note t2 = scheduledUpgrade_summary [of okEnv emptyCluster "''{}''" Map.empty
      "Some policyComplete" None "Some controlPlanePolicyComplete" "''X''"]
  note t3 = scheduledUpgrade_summary [of okEnv emptyCluster "''{}''" Map.empty
      "Some (policyComplete\<lparr>upgradePolicy_version := ''''\<rparr>)" "Some stateScheduled"
      "Some controlPlanePolicyComplete" "''X''"]
  note t4 = scheduledUpgrade_summary [of okEnv hostedCluster "''{}''" Map.empty
      None None "Some controlPlanePolicyComplete" "''X''"]
  note t5 = scheduledUpgrade_summary [of okEnv hostedCluster "''{}''" Map.empty
      None None "Some (controlPlanePolicyComplete\<lparr>controlPlaneUpgradePolicy_state := None\<rparr>)"
      "''X''"]
  note t6 = scheduledUpgrade_summary [of okEnv hostedCluster "''{}''" Map.empty
      None None None "''X''"]
  have a: "formatCluster okEnv emptyCluster (Some policyComplete) (Some stateScheduled) =
      Inr [''scheduledUpgrade'' \<mapsto> VMap
             [''version'' \<mapsto> VString ''4.12.1'', ''state'' \<mapsto> VString ''scheduled'',
              ''nextRun'' \<mapsto> VString ''2023-03-07 09:05 UTC'']]"
    using t1 m u n by (simp add: ex)
  have b: "scheduledUpgradeEntry (formatCluster okEnv emptyCluster (Some policyComplete) None) = None"
    using t2 m u n by (simp add: ex)
  have c: "scheduledUpgradeEntry
     (formatCluster okEnv emptyCluster
        (Some (policyComplete\<lparr>upgradePolicy_version := ''''\<rparr>)) (Some stateScheduled)) = None"
    using t3 m u n by (simp add: ex)
  have d: "formatClusterHypershift okEnv hostedCluster (Some controlPlanePolicyComplete) =
      Inr [''scheduledUpgrade'' \<mapsto> VMap
             [''version'' \<mapsto> VString ''4.12.1'', ''state'' \<mapsto> VString ''scheduled'',
              ''nextRun'' \<mapsto> VString ''2023-03-07 09:05 UTC'']]"
    using t4 m u n by (simp add: ex)
  have e: "scheduledUpgradeEntry
     (formatClusterHypershift okEnv hostedCluster
        (Some (controlPlanePolicyComplete\<lparr>controlPlaneUpgradePolicy_state := None\<rparr>))) = None"
    using t5 m u n by (simp add: ex)
  have f: "add_ScheduledUpgrade False (Some policyComplete) (Some stateScheduled) None ''X'' =
     ''X'' @ ''Scheduled Upgrade:          scheduled 4.12.1 on 2023-03-07 09:05 UTC\<newline>''"
    using scheduledUpgrade_summary [of okEnv emptyCluster "''{}''" Map.empty
      "Some policyComplete" "Some stateScheduled" None "''X''"]
    by (simp add: ex)
  have g: "add_ScheduledUpgrade False None None None ''X'' = ''X''"
    using t6 by simp
  have h: "add_ScheduledUpgrade True None None (Some controlPlanePolicyComplete) ''X'' =
     ''X'' @ ''Scheduled Upgrade:          scheduled 4.12.1 on 2023-03-07 09:05 UTC\<newline>''"
    using t4 by (simp add: ex)
  have i: "add_ScheduledUpgrade True None None None ''X'' = ''X''"
    using t6 by simp
  from a b c d e f g h i show ?thesis
    by (simp add: entry_def scheduledUpgradeEntry_def)
qed

subsection \<open>A whole run\<close>

lemmas report_defs =
  report_def shortDescription_def add_InfraID_def add_Proxy_def add_TrustBundle_def add_STS_def
  add_State_def add_UserWorkloadMonitoring_def add_FIPS_def add_DetailsPage_def
  add_OIDCEndpointURL_def add_ScheduledUpgrade_def add_ProvisioningError_def
  controlPlaneConfig_def clusterDNS_def clusterPhase_def isPrivate_def networkType_def
  BillingAccount_def clusterMultiAZ_def dataPlaneAvailability_def clusterInfraConfig_def
  classicNodes_def hostedNodes_def addCompute_def getDetailsLink_def StageEnv_def
  ProductionEnv_def ProductionURL_def ClusterStatus_DNSReady_def
  ClusterStatus_ProvisionErrorMessage_def ClusterStatus_ProvisionErrorCode_def
  ClusterStatus_Description_def ClusterStatus_State_def ClusterStateWaiting_def
  ClusterStatePending_def ClusterStateInstalling_def ClusterStateError_def
  ListeningMethodInternal_def fmt_t_def emptySTS_def zeroTime_def

text \<open>
  A whole run in text mode: a classic cluster with no machine pool and a cluster-level
  compute count of 3, where every collaborator answers.
\<close>

lemma run_classic_example:
  "run okEnv ''mycluster'' (classicCluster 3 None) =
     \<lparr>Calls = [(Call_GetScheduledUpgrade, None), (Call_GetMachinePools, None),
               (Call_GetLimitedSupportReasons, None)],
      Stdout =
        ''\<newline>'' @
        ''Name:                       \<newline>'' @
        ''ID:                         \<newline>'' @
        ''External ID:                \<newline>'' @
        ''Control Plane:              Customer Hosted\<newline>'' @
        ''OpenShift Version:          \<newline>'' @
        ''Channel Group:              \<newline>'' @
        ''DNS:                        Not ready\<newline>'' @
        ''AWS Account:                123456789012\<newline>'' @
        ''API URL:                    \<newline>'' @
        ''Console URL:                \<newline>'' @
        ''Region:                     \<newline>'' @
        ''Multi-AZ:                   false\<newline>'' @
        ''Nodes:\<newline>'' @
        '' - Control plane:           3\<newline>'' @
        '' - Infra:                   2\<newline>'' @
        '' - Compute:                 3\<newline>'' @
        ''Network:\<newline>'' @
        '' - Type:                    \<newline>'' @
        '' - Service CIDR:            \<newline>'' @
        '' - Machine CIDR:            \<newline>'' @
        '' - Pod CIDR:                \<newline>'' @
        '' - Host Prefix:             /0\<newline>'' @
        ''State:                       \<newline>'' @
        ''Private:                    No\<newline>'' @
        ''Created:                    Jan  1 0001 00:00:00 UTC\<newline>'' @
        ''Details Page:               https://console.redhat.com/openshift/details/s/\<newline>'' @
        ''\<newline>'',
      Errorf = [], Exit = None\<rparr>"
proof -
  have "run okEnv ''mycluster'' (classicCluster 3 None) =
     \<lparr>Calls = [(Call_GetScheduledUpgrade, None), (Call_GetMachinePools, None),
               (Call_GetLimitedSupportReasons, None)],
      Stdout = add_LimitedSupport []
        (report okEnv (classicCluster 3 None) \<lparr>ARN_AccountID = ''123456789012''\<rparr> [] []
           None None None),
      Errorf = [], Exit = None\<rparr>"
    by (rule run_text_classic_success)
       (simp_all add: okEnv_def classicCluster_def emptyCluster_def)
  moreover have "report okEnv (classicCluster 3 None) \<lparr>ARN_AccountID = ''123456789012''\<rparr> [] []
           None None None =
        ''\<newline>'' @
        ''Name:                       \<newline>'' @
        ''ID:                         \<newline>'' @
        ''External ID:                \<newline>'' @
        ''Control Plane:              Customer Hosted\<newline>'' @
        ''OpenShift Version:          \<newline>'' @
        ''Channel Group:              \<newline>'' @
        ''DNS:                        Not ready\<newline>'' @
        ''AWS Account:                123456789012\<newline>'' @
        ''API URL:                    \<newline>'' @
        ''Console URL:                \<newline>'' @
        ''Region:                     \<newline>'' @
        ''Multi-AZ:                   false\<newline>'' @
        ''Nodes:\<newline>'' @
        '' - Control plane:           3\<newline>'' @
        '' - Infra:                   2\<newline>'' @
        '' - Compute:                 3\<newline>'' @
        ''Network:\<newline>'' @
        '' - Type:                    \<newline>'' @
        '' - Service CIDR:            \<newline>'' @
        '' - Machine CIDR:            \<newline>'' @
        '' - Pod CIDR:                \<newline>'' @
        '' - Host Prefix:             /0\<newline>'' @
        ''State:                       \<newline>'' @
        ''Private:                    No\<newline>'' @
        ''Created:                    Jan  1 0001 00:00:00 UTC\<newline>'' @
        ''Details Page:               https://console.redhat.com/openshift/details/s/\<newline>''"
    by (simp add: report_defs okEnv_def classicCluster_def emptyCluster_def fmt_defs time_defs)
  ultimately show ?thesis
    by (simp add: add_LimitedSupport_def)
qed

end
